theory Spec2Isabelle
  imports Complex_Main "HOL-Library.Sublist" "HOL-Library.Char_ord" "HOL-Library.List_Lexorder"
begin

section \<open>Python strings and lists\<close>

text \<open>
  Python \<^verbatim>\<open>str\<close> values are modelled as \<^typ>\<open>string\<close>; the model covers ASCII text, which is
  what the schematic format, the library identifiers and the patterns of the sources use.
  \<^verbatim>\<open>None\<close> is \<^term>\<open>None\<close>; a raised exception is a value of type \<open>py_error\<close>.
\<close>

datatype py_error =
  OSError | JSONDecodeError | ValidationError | AttributeError | TypeError | LLMError

text \<open>\<^verbatim>\<open>str.isspace\<close> on ASCII: tab, newline, vertical tab, form feed, carriage return, the four
  separators 0x1c..0x1f and the space.\<close>

definition py_isspace :: "char \<Rightarrow> bool" where
  "py_isspace c = (let n = of_char c :: nat in (9 \<le> n \<and> n \<le> 13) \<or> (28 \<le> n \<and> n \<le> 32))"

definition py_isdigit :: "char \<Rightarrow> bool" where
  "py_isdigit c = (let n = of_char c :: nat in 48 \<le> n \<and> n \<le> 57)"

definition py_isupper :: "char \<Rightarrow> bool" where
  "py_isupper c = (let n = of_char c :: nat in 65 \<le> n \<and> n \<le> 90)"

definition py_islower :: "char \<Rightarrow> bool" where
  "py_islower c = (let n = of_char c :: nat in 97 \<le> n \<and> n \<le> 122)"

definition py_isalpha :: "char \<Rightarrow> bool" where
  "py_isalpha c = (py_isupper c \<or> py_islower c)"

text \<open>A word character of \<^verbatim>\<open>re\<close>: \<^verbatim>\<open>[A-Za-z0-9_]\<close>.\<close>

definition py_isword :: "char \<Rightarrow> bool" where
  "py_isword c = (py_isalpha c \<or> py_isdigit c \<or> c = CHR ''_'')"

definition ascii_upper :: string where
  "ascii_upper = ''ABCDEFGHIJKLMNOPQRSTUVWXYZ''"

definition ascii_lower :: string where
  "ascii_lower = ''abcdefghijklmnopqrstuvwxyz''"

definition lower_char :: "char \<Rightarrow> char" where
  "lower_char c = (case map_of (zip ascii_upper ascii_lower) c of None \<Rightarrow> c | Some l \<Rightarrow> l)"

definition upper_char :: "char \<Rightarrow> char" where
  "upper_char c = (case map_of (zip ascii_lower ascii_upper) c of None \<Rightarrow> c | Some u \<Rightarrow> u)"

definition py_lower :: "string \<Rightarrow> string" where
  "py_lower s = map lower_char s"

definition py_upper :: "string \<Rightarrow> string" where
  "py_upper s = map upper_char s"

definition py_strip :: "string \<Rightarrow> string" where
  "py_strip s = rev (dropWhile py_isspace (rev (dropWhile py_isspace s)))"

definition py_startswith :: "string \<Rightarrow> string \<Rightarrow> bool" where
  "py_startswith s p = (take (length p) s = p)"

definition py_endswith :: "string \<Rightarrow> string \<Rightarrow> bool" where
  "py_endswith s p = (length p \<le> length s \<and> drop (length s - length p) s = p)"

text \<open>\<^verbatim>\<open>s.find(sub)\<close>: the least index at which \<open>sub\<close> occurs, \<^term>\<open>None\<close> for Python's -1.\<close>

fun py_find_from :: "nat \<Rightarrow> string \<Rightarrow> string \<Rightarrow> nat option" where
  "py_find_from i [] sub = (if sub = [] then Some i else None)"
| "py_find_from i (c # cs) sub =
     (if py_startswith (c # cs) sub then Some i else py_find_from (Suc i) cs sub)"

definition py_find :: "string \<Rightarrow> string \<Rightarrow> nat option" where
  "py_find s sub = py_find_from 0 s sub"

text \<open>\<^verbatim>\<open>s.rfind(sub)\<close>: the greatest index at which \<open>sub\<close> occurs.\<close>

fun py_rfind_from :: "nat \<Rightarrow> string \<Rightarrow> string \<Rightarrow> nat option" where
  "py_rfind_from i [] sub = (if sub = [] then Some i else None)"
| "py_rfind_from i (c # cs) sub =
     (case py_rfind_from (Suc i) cs sub of
        Some j \<Rightarrow> Some j
      | None \<Rightarrow> if py_startswith (c # cs) sub then Some i else None)"

definition py_rfind :: "string \<Rightarrow> string \<Rightarrow> nat option" where
  "py_rfind s sub = py_rfind_from 0 s sub"

text \<open>\<^verbatim>\<open>sub in s\<close>.\<close>

definition py_contains :: "string \<Rightarrow> string \<Rightarrow> bool" where
  "py_contains s sub = (py_find s sub \<noteq> None)"

text \<open>The slices \<^verbatim>\<open>xs[:n]\<close> and \<^verbatim>\<open>xs[n:]\<close> for any integer \<open>n\<close>: a negative bound counts from
  the end, and every bound is clipped to the list.\<close>

definition slice_to :: "int \<Rightarrow> 'a list \<Rightarrow> 'a list" where
  "slice_to n xs = (if n < 0 then take (length xs - nat (- n)) xs else take (nat n) xs)"

definition slice_from :: "int \<Rightarrow> 'a list \<Rightarrow> 'a list" where
  "slice_from n xs = (if n < 0 then drop (length xs - nat (- n)) xs else drop (nat n) xs)"

text \<open>\<^verbatim>\<open>sep.join(xs)\<close>.\<close>

fun py_join :: "string \<Rightarrow> string list \<Rightarrow> string" where
  "py_join sep [] = []"
| "py_join sep [x] = x"
| "py_join sep (x # y # ys) = x @ sep @ py_join sep (y # ys)"

section \<open>The synthesizer's conversation history (\<^verbatim>\<open>kicad/gpt_writer.py\<close>)\<close>

record message =
  role :: string
  content :: string

text \<open>\<^verbatim>\<open>GptSchematicWriter._add_history\<close>: append, then keep the last ten entries when there
  are more than ten.\<close>

definition add_history :: "message list \<Rightarrow> string \<Rightarrow> string \<Rightarrow> message list" where
  "add_history history r c =
     (let h = history @ [\<lparr>role = r, content = c\<rparr>]
      in if length h > 10 then slice_from (-10) h else h)"

text \<open>A sequence of additions, starting from a given history.\<close>

fun add_all :: "message list \<Rightarrow> (string \<times> string) list \<Rightarrow> message list" where
  "add_all history [] = history"
| "add_all history ((r, c) # es) = add_all (add_history history r c) es"

definition entry :: "string \<times> string \<Rightarrow> message" where
  "entry e = \<lparr>role = fst e, content = snd e\<rparr>"

subsection \<open>History window\<close>

lemma add_history_drop:
  "add_history h r c = drop (Suc (length h) - 10) (h @ [entry (r, c)])"
  by (simp add: add_history_def slice_from_def entry_def Let_def)

lemma add_history_length: "length h \<le> 10 \<Longrightarrow> length (add_history h r c) \<le> 10"
  by (simp add: add_history_drop)

lemma add_all_drop:
  "length h \<le> 10 \<Longrightarrow>
   add_all h es = drop (length h + length es - 10) (h @ map entry es)"
proof (induction es arbitrary: h)
  case Nil
  then show ?case by simp
next
  case (Cons e es)
  obtain r c where e: "e = (r, c)" by (cases e)
  let ?h = "add_history h r c"
  have len: "length ?h = min 10 (Suc (length h))"
    by (simp add: add_history_drop)
  have "add_all h (e # es) = add_all ?h es" by (simp add: e)
  also have "\<dots> = drop (length ?h + length es - 10) (?h @ map entry es)"
    using Cons.IH [of ?h] Cons.prems by (simp add: add_history_length)
  also have "\<dots> = drop (length h + length (e # es) - 10) (h @ map entry (e # es))"
  proof (cases "Suc (length h) \<le> 10")
    case True
    then have "?h = h @ [entry (r, c)]" by (simp add: add_history_drop)
    then show ?thesis by (simp add: e)
  next
    case False
    with Cons.prems have l: "length h = 10" by simp
    then obtain x h' where h: "h = x # h'" by (cases h) auto
    have "?h = h' @ [entry (r, c)]"
      using l by (simp add: add_history_drop h)
    then show ?thesis using l by (simp add: e h)
  qed
  finally show ?case .
qed

text \<open>
  C6. After any sequence of additions to the initially empty history the history has at
  most 10 entries and consists of exactly the most recent \<open>min 10 n\<close> entries in their
  original order; a single addition to any history appends the entry and keeps the last
  ten; after 12 additions the entries 3 to 12 remain, oldest first.
\<close>

theorem history_sliding_window:
  "length (add_all [] es) \<le> 10
   \<and> add_all [] es = drop (length es - 10) (map entry es)
   \<and> length (add_all [] es) = min 10 (length es)
   \<and> add_history h r c = drop (Suc (length h) - 10) (h @ [\<lparr>role = r, content = c\<rparr>])
   \<and> add_all [] (map (\<lambda>i. (''user'', [char_of (i + 64)])) [1 ..< 13 :: nat])
       = map (\<lambda>i. \<lparr>role = ''user'', content = [char_of (i + 64)]\<rparr>) [3 ..< 13]"
proof -
  have a: "add_all [] es = drop (length es - 10) (map entry es)"
    using add_all_drop [of "[]" es] by simp
  have b: "add_history h r c = drop (Suc (length h) - 10) (h @ [\<lparr>role = r, content = c\<rparr>])"
    by (simp add: add_history_drop entry_def)
  have c: "add_all [] (map (\<lambda>i. (''user'', [char_of (i + 64)])) [1 ..< 13 :: nat])
       = map (\<lambda>i. \<lparr>role = ''user'', content = [char_of (i + 64)]\<rparr>) [3 ..< 13]"
    by (subst add_all_drop) (simp_all add: upt_rec entry_def add_history_drop)
  have d: "length (add_all [] es) = min 10 (length es)"
    by (simp add: a)
  from a b c d show ?thesis by simp
qed

section \<open>Regular expressions (\<^verbatim>\<open>re\<close>)\<close>

text \<open>
  The sources probe the schematic text with \<^verbatim>\<open>re.search\<close>, \<^verbatim>\<open>re.findall\<close>, \<^verbatim>\<open>re.finditer\<close> and
  \<^verbatim>\<open>re.sub\<close>. The patterns they use need literals, character classes, \<^verbatim>\<open>\b\<close>, sequence,
  alternation, greedy repetition and capture groups. The matcher below is a backtracking
  matcher: it returns every way a pattern matches at a position, in the order in which
  \<^verbatim>\<open>re\<close> would try them (greedy first), so the head of the list is the match \<^verbatim>\<open>re\<close> reports.
\<close>

datatype rx =
    Eps
  | Lit char
  | Cls "char \<Rightarrow> bool"
  | WordB
  | Seq rx rx
  | Alt rx rx
  | Star rx
  | Grp nat rx

text \<open>A position in the subject: the character before it, the text from it on, its index and
  the groups captured so far (most recent first).\<close>

record mstate =
  prev :: "char option"
  rest :: string
  pos :: nat
  caps :: "(nat \<times> string) list"

definition advance :: "mstate \<Rightarrow> mstate" where
  "advance st = (case rest st of [] \<Rightarrow> st
     | x # xs \<Rightarrow> st\<lparr>prev := Some x, rest := xs, pos := Suc (pos st)\<rparr>)"

definition at_word_boundary :: "mstate \<Rightarrow> bool" where
  "at_word_boundary st =
     ((case prev st of None \<Rightarrow> False | Some c \<Rightarrow> py_isword c)
      \<noteq> (case rest st of [] \<Rightarrow> False | c # _ \<Rightarrow> py_isword c))"

function ms :: "rx \<Rightarrow> mstate \<Rightarrow> mstate list" where
  "ms Eps st = [st]"
| "ms (Lit c) st = (case rest st of [] \<Rightarrow> [] | x # _ \<Rightarrow> if x = c then [advance st] else [])"
| "ms (Cls p) st = (case rest st of [] \<Rightarrow> [] | x # _ \<Rightarrow> if p x then [advance st] else [])"
| "ms WordB st = (if at_word_boundary st then [st] else [])"
| "ms (Seq a b) st = concat (map (ms b) (ms a st))"
| "ms (Alt a b) st = ms a st @ ms b st"
| "ms (Star a) st =
     concat (map (\<lambda>st'. if length (rest st') < length (rest st) then ms (Star a) st' else [])
                 (ms a st)) @ [st]"
| "ms (Grp n a) st =
     map (\<lambda>st'. st'\<lparr>caps := (n, take (pos st' - pos st) (rest st)) # caps st'\<rparr>) (ms a st)"
  by pat_completeness auto
termination
  by (relation "measures [\<lambda>(r, st). size r, \<lambda>(r, st). length (rest st)]") auto

definition Plus :: "rx \<Rightarrow> rx" where
  "Plus a = Seq a (Star a)"

definition Opt :: "rx \<Rightarrow> rx" where
  "Opt a = Alt a Eps"

fun AtLeast :: "nat \<Rightarrow> rx \<Rightarrow> rx" where
  "AtLeast 0 a = Star a"
| "AtLeast (Suc n) a = Seq a (AtLeast n a)"

fun seqs :: "rx list \<Rightarrow> rx" where
  "seqs [] = Eps"
| "seqs [r] = r"
| "seqs (r # rs) = Seq r (seqs rs)"

definition lits :: "string \<Rightarrow> rx" where
  "lits s = seqs (map Lit s)"

text \<open>A literal under \<^verbatim>\<open>re.I\<close>.\<close>

definition lits_nocase :: "string \<Rightarrow> rx" where
  "lits_nocase s = seqs (map (\<lambda>c. Cls (\<lambda>x. lower_char x = lower_char c)) s)"

record re_match =
  m_start :: nat
  m_end :: nat
  m_groups :: "(nat \<times> string) list"

text \<open>\<^verbatim>\<open>m.group(n)\<close>: \<^term>\<open>None\<close> when the group took no part in the match.\<close>

definition group :: "re_match \<Rightarrow> nat \<Rightarrow> string option" where
  "group m n = map_of (m_groups m) n"

definition start_state :: "string \<Rightarrow> mstate" where
  "start_state s = \<lparr>prev = None, rest = s, pos = 0, caps = []\<rparr>"

definition match_here :: "rx \<Rightarrow> mstate \<Rightarrow> mstate option" where
  "match_here r st = (case ms r (st\<lparr>caps := []\<rparr>) of [] \<Rightarrow> None | m # _ \<Rightarrow> Some m)"

text \<open>The leftmost match at or after a position, with the position where it ends.\<close>

function search_from :: "rx \<Rightarrow> mstate \<Rightarrow> (re_match \<times> mstate) option" where
  "search_from r st =
     (case match_here r st of
        Some m \<Rightarrow> Some (\<lparr>m_start = pos st, m_end = pos m, m_groups = caps m\<rparr>, m)
      | None \<Rightarrow> (case rest st of [] \<Rightarrow> None | _ # _ \<Rightarrow> search_from r (advance st)))"
  by pat_completeness auto
termination
  by (relation "measure (\<lambda>(r, st). length (rest st))") (auto simp: advance_def)

definition re_search :: "rx \<Rightarrow> string \<Rightarrow> re_match option" where
  "re_search r s = map_option fst (search_from r (start_state s))"

text \<open>\<^verbatim>\<open>re.finditer\<close>: the matches from left to right, each search starting where the match
  before it ended (one character further after an empty match).\<close>

function finditer_from :: "rx \<Rightarrow> mstate \<Rightarrow> re_match list" where
  "finditer_from r st =
     (case search_from r st of
        None \<Rightarrow> []
      | Some (m, st') \<Rightarrow>
          m # (if length (rest st') < length (rest st) then finditer_from r st'
               else (case rest st of [] \<Rightarrow> [] | _ # _ \<Rightarrow> finditer_from r (advance st))))"
  by pat_completeness auto
termination
  by (relation "measure (\<lambda>(r, st). length (rest st))") (auto simp: advance_def)

definition re_finditer :: "rx \<Rightarrow> string \<Rightarrow> re_match list" where
  "re_finditer r s = finditer_from r (start_state s)"

text \<open>\<^verbatim>\<open>re.findall\<close> for a pattern with one group: the text of group 1 of every match.\<close>

definition re_findall :: "rx \<Rightarrow> string \<Rightarrow> string list" where
  "re_findall r s = map (\<lambda>m. case group m 1 of None \<Rightarrow> [] | Some g \<Rightarrow> g) (re_finditer r s)"

text \<open>\<^verbatim>\<open>re.sub(pattern, repl, s)\<close> for a replacement without group references.\<close>

fun sub_matches :: "nat \<Rightarrow> string \<Rightarrow> re_match list \<Rightarrow> string \<Rightarrow> string" where
  "sub_matches cur s [] repl = drop cur s"
| "sub_matches cur s (m # rest_ms) repl =
     take (m_start m - cur) (drop cur s) @ repl @ sub_matches (m_end m) s rest_ms repl"

definition re_sub :: "rx \<Rightarrow> string \<Rightarrow> string \<Rightarrow> string" where
  "re_sub r repl s = sub_matches 0 s (re_finditer r s) repl"

subsection \<open>The patterns of the sources\<close>

definition rx_space :: rx where
  "rx_space = Cls py_isspace"

definition rx_digit :: rx where
  "rx_digit = Cls py_isdigit"

text \<open>\<^verbatim>\<open>\(lib_id\s+\"([^\"]+)\"\)\<close>\<close>

definition rx_lib_id :: rx where
  \<open>rx_lib_id = seqs [lits ''(lib_id'', Plus rx_space, Lit (CHR ''"''),
      Grp 1 (Plus (Cls (\<lambda>c. c \<noteq> CHR ''"''))), lits ''")'']\<close>

text \<open>\<^verbatim>\<open>\(pin\b\<close>\<close>

definition rx_pin :: rx where
  "rx_pin = seqs [lits ''(pin'', WordB]"

text \<open>\<^verbatim>\<open>\((rectangle|polyline|circle|arc)\b\<close>\<close>

definition rx_shape :: rx where
  "rx_shape = seqs [Lit (CHR ''(''),
      Grp 1 (Alt (lits ''rectangle'') (Alt (lits ''polyline'') (Alt (lits ''circle'') (lits ''arc'')))),
      WordB]"

text \<open>\<^verbatim>\<open>\(property\s+\"Reference\"\s+\"([A-Za-z]+\d+)\"\<close>\<close>

definition rx_reference :: rx where
  \<open>rx_reference = seqs [lits ''(property'', Plus rx_space, lits ''"Reference"'', Plus rx_space,
      Lit (CHR ''"''), Grp 1 (Seq (Plus (Cls py_isalpha)) (Plus rx_digit)), Lit (CHR ''"'')]\<close>

text \<open>\<^verbatim>\<open>-?[\d\.]+\<close>\<close>

definition rx_number :: rx where
  "rx_number = Seq (Opt (Lit (CHR ''-''))) (Plus (Cls (\<lambda>c. py_isdigit c \<or> c = CHR ''.'')))"

text \<open>\<^verbatim>\<open>\(at\s+(-?[\d\.]+)\s+(-?[\d\.]+)(?:\s+(-?[\d\.]+))?\)\<close>\<close>

definition rx_at :: rx where
  "rx_at = seqs [lits ''(at'', Plus rx_space, Grp 1 rx_number, Plus rx_space, Grp 2 rx_number,
      Opt (Seq (Plus rx_space) (Grp 3 rx_number)), Lit (CHR '')'')]"

text \<open>\<^verbatim>\<open>\(uuid\s+[0-9a-fA-F-]{8,}\)\<close>\<close>

definition is_uuid_char :: "char \<Rightarrow> bool" where
  "is_uuid_char c = (py_isdigit c \<or> c \<in> set ''abcdefABCDEF-'')"

definition rx_uuid :: rx where
  "rx_uuid = seqs [lits ''(uuid'', Plus rx_space, AtLeast 8 (Cls is_uuid_char), Lit (CHR '')'')]"

text \<open>\<^verbatim>\<open>Found\s+(\d+)\s+violations\<close> with \<^verbatim>\<open>re.I\<close>\<close>

definition rx_found_violations :: rx where
  "rx_found_violations = seqs [lits_nocase ''Found'', Plus rx_space, Grp 1 (Plus rx_digit),
      Plus rx_space, lits_nocase ''violations'']"

text \<open>\<^verbatim>\<open>\(symbol\s+\"([^\"]+)\"\<close>\<close>

definition rx_symbol :: rx where
  \<open>rx_symbol = seqs [lits ''(symbol'', Plus rx_space, Lit (CHR ''"''),
      Grp 1 (Plus (Cls (\<lambda>c. c \<noteq> CHR ''"''))), Lit (CHR ''"'')]\<close>

text \<open>\<^verbatim>\<open>[^A-Za-z0-9_]+\<close>\<close>

definition rx_not_word :: rx where
  "rx_not_word = Plus (Cls (\<lambda>c. \<not> py_isword c))"

section \<open>The circuit model (\<^verbatim>\<open>core/models.py\<close>)\<close>

text \<open>The fields \<^verbatim>\<open>type\<close> and \<^verbatim>\<open>value\<close> of the source are \<open>ptype\<close> and \<open>pvalue\<close> here.\<close>

record PartSpec =
  ref :: string
  ptype :: string
  symbol :: "string option"
  pvalue :: "string option"
  pins :: "(string \<times> string) list"
  position :: "(int \<times> int) option"
  rotation :: "int option"

record NetSpec =
  name :: string

record CircuitSpec =
  title :: "string option"
  parts :: "PartSpec list"
  nets :: "NetSpec list"

section \<open>JSON values and the library boundary\<close>

text \<open>
  The values \<^verbatim>\<open>json.loads\<close> returns. A \<^verbatim>\<open>dict\<close> is an association list in insertion order
  with distinct keys; \<open>dict_get\<close> is \<^verbatim>\<open>d.get(k)\<close>.
\<close>

datatype json =
    JNull
  | JBool bool
  | JInt int
  | JFloat real
  | JStr string
  | JList "json list"
  | JDict "(string \<times> json) list"

definition dict_get :: "(string \<times> 'v) list \<Rightarrow> string \<Rightarrow> 'v option" where
  "dict_get d k = map_of d k"

text \<open>Python truthiness of a decoded value.\<close>

fun py_truthy :: "json \<Rightarrow> bool" where
  "py_truthy JNull = False"
| "py_truthy (JBool b) = b"
| "py_truthy (JInt i) = (i \<noteq> 0)"
| "py_truthy (JFloat r) = (r \<noteq> 0)"
| "py_truthy (JStr s) = (s \<noteq> [])"
| "py_truthy (JList xs) = (xs \<noteq> [])"
| "py_truthy (JDict d) = (d \<noteq> [])"

text \<open>
  Library functions the sources call and whose code is not part of the repository are
  parameters of the model: \<^verbatim>\<open>json.loads\<close> (\<^term>\<open>None\<close> when it raises), \<^verbatim>\<open>json.dumps\<close>, the
  built-in \<^verbatim>\<open>str\<close> on a decoded value that is not a string, what pydantic makes of a value
  that is neither a string nor \<^verbatim>\<open>None\<close> in a field of type \<^verbatim>\<open>Optional[str]\<close> (\<^term>\<open>None\<close>
  when it raises a validation error; the answer depends on the pydantic release), and the
  validating constructor \<^verbatim>\<open>CircuitSpec(**raw)\<close>.
\<close>

record pylib =
  json_loads :: "string \<Rightarrow> json option"
  json_dumps :: "json \<Rightarrow> string"
  py_str :: "json \<Rightarrow> string"
  pydantic_str :: "json \<Rightarrow> string option"
  circuit_from_dict :: "(string \<times> json) list \<Rightarrow> CircuitSpec option"

section \<open>The document synthesizer (\<^verbatim>\<open>kicad/gpt_writer.py\<close>)\<close>

type_synonym allowed_table = "(string \<times> string list) list"

record writer =
  history :: "message list"
  iter_counter :: nat

definition new_writer :: writer where
  "new_writer = \<lparr>history = [], iter_counter = 0\<rparr>"

definition system_prompt :: string where
  \<open>system_prompt =
    ''You are a KiCad 9 schematic generator. Produce a valid KiCad 9 S-expression schematic file strictly from the given LLD JSON.\<newline>''
    @ ''Constraints:\<newline>''
    @ ''- Output ONLY the schematic text starting with (kicad_sch ...). No prose, no code fences.\<newline>''
    @ ''- Use top-level: (kicad_sch (version 20250114) (generator eeschema) ...).\<newline>''
    @ ''- Include (paper "A4") and (title_block (title "<title>")).\<newline>''
    @ ''- Library symbols live under (lib_symbols ...). Their names are generic prefixes WITHOUT numbers (e.g., R, C, L, D, Q, Y, U, J, S, or Custom:<name>), and include pins and an outline (rectangle/polyline).\<newline>''
    @ ''- Placed instances live directly under (kicad_sch) as (symbol ...). For each ref in '' @ [CHR 0x27] @ ''allowed'' @ [CHR 0x27]
    @ '' (input order), CREATE ONE (symbol ...) with: (lib_id <Library:Symbol> chosen ONLY from that ref'' @ [CHR 0x27]
    @ ''s allowed list), (at ...), (uuid <GUID>), and sibling properties including (property "Reference" "<ref>"). Every placed instance MUST include a UUID.\<newline>''
    @ ''- Reference prefix rules (by lib_id category): R (resistors), C (capacitors), L (inductors), J (connectors), S (switches/buttons), D (diodes/LEDs), Q (transistors/MOSFETs), Y (crystals/oscillators), U (ICs/others). Normalize refs to match and number sequentially per prefix based on input order.\<newline>''
    @ ''- If no suitable real symbol exists, embed a custom symbol in (lib_symbols ...) and reference it via a Custom:<name> lib_id (no numbers in the symbol name).\<newline>''
    @ ''- Add minimal (sheet_instances ...) bookkeeping expected by KiCad 9.\<newline>''
    @ ''- STRICTLY follow the provided template schema if given: replicate header, section order, nesting, and formatting. Do not change section names or hierarchy.\<newline>''
    @ ''- Apply engineering drawing practices: readable spacing, avoid overlaps, consistent orientation.\<newline>''\<close>

text \<open>\<^verbatim>\<open>if x:\<close> for an optional string or list.\<close>

definition nonempty_opt :: "'a list option \<Rightarrow> bool" where
  "nonempty_opt x = (case x of None \<Rightarrow> False | Some v \<Rightarrow> v \<noteq> [])"

text \<open>\<^verbatim>\<open>_build_prompt\<close>: the system instructions and the serialised payload.\<close>

definition build_payload ::
  "pylib \<Rightarrow> string \<Rightarrow> allowed_table \<Rightarrow> string option \<Rightarrow> string list option \<Rightarrow> string option \<Rightarrow> json"
where
  "build_payload lib spec_json_text allowed_by_ref prev_text issues reference_text =
     (let raw = (case json_loads lib spec_json_text of
                   Some v \<Rightarrow> v
                 | None \<Rightarrow> JDict [(''raw'', JStr (slice_to 4000 spec_json_text))])
      in JDict (
           [(''lld_json'', raw),
            (''allowed'', JDict (map (\<lambda>(k, v). (k, JList (map JStr v))) allowed_by_ref)),
            (''refs'', JList (map (\<lambda>(k, v). JStr k) allowed_by_ref))]
           @ (if nonempty_opt prev_text
              then [(''previous_text'', JStr (slice_to 12000 (the prev_text)))] else [])
           @ (if nonempty_opt issues
              then [(''issues_to_fix'', JList (map JStr (slice_to 100 (the issues))))] else [])
           @ (if nonempty_opt reference_text
              then [(''reference_schematic'', JStr (slice_to 20000 (the reference_text)))] else [])))"

definition build_prompt ::
  "pylib \<Rightarrow> string \<Rightarrow> allowed_table \<Rightarrow> string option \<Rightarrow> string list option \<Rightarrow> string option
   \<Rightarrow> string \<times> string"
where
  "build_prompt lib spec_json_text allowed_by_ref prev_text issues reference_text =
     (system_prompt,
      json_dumps lib (build_payload lib spec_json_text allowed_by_ref prev_text issues reference_text))"

text \<open>The span from the first \<^verbatim>\<open>(kicad_sch\<close> to the last \<^verbatim>\<open>)\<close> of a reply, the stripped reply
  when there is no such span.\<close>

definition extract_document :: "string \<Rightarrow> string" where
  "extract_document reply =
     (case (py_find reply ''(kicad_sch'', py_rfind reply '')'') of
        (Some start, Some end) \<Rightarrow>
          if end > start then take (end + 1 - start) (drop start reply) else py_strip reply
      | _ \<Rightarrow> py_strip reply)"

text \<open>The messages \<^verbatim>\<open>generate_text\<close> sends: the fresh system instructions, then the history
  with the new request appended.\<close>

definition sent_messages ::
  "pylib \<Rightarrow> writer \<Rightarrow> string \<Rightarrow> allowed_table \<Rightarrow> string option \<Rightarrow> string list option \<Rightarrow> string option
   \<Rightarrow> message list"
where
  "sent_messages lib w spec_json_text allowed_by_ref prev_text issues reference_text =
     (let (system, user) = build_prompt lib spec_json_text allowed_by_ref prev_text issues reference_text
      in \<lparr>role = ''system'', content = system\<rparr> # add_history (history w) ''user'' user)"

text \<open>
  \<^verbatim>\<open>generate_text\<close>. The oracle \<open>chat\<close> maps the messages to its reply, \<^term>\<open>None\<close> when the
  client raises after its retries; the source turns that into the empty reply. The result
  is the new writer state, the extracted document and the raw reply.
\<close>

definition generate_text ::
  "pylib \<Rightarrow> (message list \<Rightarrow> string option) \<Rightarrow> writer \<Rightarrow> string \<Rightarrow> allowed_table \<Rightarrow> string option
   \<Rightarrow> string list option \<Rightarrow> string option \<Rightarrow> writer \<times> string \<times> string"
where
  "generate_text lib chat w spec_json_text allowed_by_ref prev_text issues reference_text =
     (let (system, user) = build_prompt lib spec_json_text allowed_by_ref prev_text issues reference_text;
          w1 = w\<lparr>history := add_history (history w) ''user'' user\<rparr>;
          messages = \<lparr>role = ''system'', content = system\<rparr> # history w1;
          reply = (case chat messages of None \<Rightarrow> [] | Some r \<Rightarrow> r)
      in if reply = [] then (w1, [], [])
         else (w1\<lparr>history := add_history (history w1) ''assistant'' reply\<rparr>,
               extract_document reply, reply))"

definition seed_schematic :: "string \<Rightarrow> string" where
  \<open>seed_schematic title_text =
     ''(kicad_sch (version 20250114) (generator eeschema)\<newline>''
     @ ''  (paper "A4")\<newline>''
     @ ''  (title_block (title "'' @ (if title_text = [] then ''Untitled'' else title_text) @ ''"))\<newline>''
     @ '')\<newline>''\<close>

definition well_formed :: "string \<Rightarrow> bool" where
  "well_formed t = (py_startswith (py_strip t) ''(kicad_sch'' \<and> py_endswith (py_strip t) '')'')"

text \<open>\<^verbatim>\<open>prev_text and prev_text.strip()\<close>\<close>

definition non_blank :: "string option \<Rightarrow> bool" where
  "non_blank prev_text = (case prev_text of None \<Rightarrow> False | Some p \<Rightarrow> p \<noteq> [] \<and> py_strip p \<noteq> [])"

text \<open>\<^verbatim>\<open>GptSchematicWriter.write\<close> (\<open>write\<close> is a reserved word of the theory language): the new writer
  state and the text written to the output path.\<close>

definition writer_write ::
  "pylib \<Rightarrow> (message list \<Rightarrow> string option) \<Rightarrow> writer \<Rightarrow> string \<Rightarrow> allowed_table \<Rightarrow> string option
   \<Rightarrow> string list option \<Rightarrow> string option \<Rightarrow> writer \<times> string"
where
  "writer_write lib chat w spec_json_text allowed_by_ref prev_text issues reference_text =
     (let w1 = w\<lparr>iter_counter := iter_counter w + 1\<rparr>;
          (w2, parsed_text, raw_reply) =
             generate_text lib chat w1 spec_json_text allowed_by_ref prev_text issues reference_text
      in if well_formed parsed_text then (w2, parsed_text)
         else (case prev_text of
                 Some p \<Rightarrow> if non_blank prev_text then (w2, p) else (w2, seed_schematic ''Untitled'')
               | None \<Rightarrow> (w2, seed_schematic ''Untitled'')))"

text \<open>The candidate document \<^verbatim>\<open>generate_text\<close> extracts from what the oracle did.\<close>

definition candidate_of :: "string option \<Rightarrow> string" where
  "candidate_of reply =
     (case reply of None \<Rightarrow> [] | Some r \<Rightarrow> if r = [] then [] else extract_document r)"

subsection \<open>Write policy\<close>

lemma sent_messages_iter_counter:
  "sent_messages lib (w\<lparr>iter_counter := n\<rparr>) s a p i r = sent_messages lib w s a p i r"
  by (simp add: sent_messages_def)

lemma generate_text_candidate:
  "fst (snd (generate_text lib chat w s a p i r)) = candidate_of (chat (sent_messages lib w s a p i r))"
  by (simp add: generate_text_def sent_messages_def candidate_of_def Let_def
      split: prod.splits option.splits)

lemma write_document:
  "snd (writer_write lib chat w s a p i r) =
     (let c = candidate_of (chat (sent_messages lib w s a p i r))
      in if well_formed c then c
         else if non_blank p then the p else seed_schematic ''Untitled'')"
proof -
  let ?w1 = "w\<lparr>iter_counter := iter_counter w + 1\<rparr>"
  obtain w2 parsed raw where g: "generate_text lib chat ?w1 s a p i r = (w2, parsed, raw)"
    by (cases "generate_text lib chat ?w1 s a p i r") auto
  have "parsed = candidate_of (chat (sent_messages lib w s a p i r))"
    using generate_text_candidate [of lib chat ?w1 s a p i r] g
    by (simp add: sent_messages_iter_counter)
  with g show ?thesis
    by (cases p) (simp_all add: writer_write_def Let_def non_blank_def)
qed

lemma seed_well_formed: "well_formed (seed_schematic ''Untitled'')"
  by (simp add: well_formed_def seed_schematic_def py_strip_def py_isspace_def
      py_startswith_def py_endswith_def)

text \<open>
  C3. Whatever the oracle does (a reply, an empty reply, or a failure), \<^verbatim>\<open>write\<close> persists
  the extracted candidate when that is well-formed (stripped, it starts with
  \<^verbatim>\<open>(kicad_sch\<close> and ends with \<^verbatim>\<open>)\<close>); otherwise the previous document unchanged when one
  exists and is not blank; otherwise the seed document, which consists of the header, the
  paper field and the title block. So the persisted text is a well-formed candidate, the
  previous document or the seed.
\<close>

theorem write_persists_candidate_previous_or_seed:
  \<open>snd (writer_write lib chat w spec allowed prev_text issues reference) =
     (let c = candidate_of (chat (sent_messages lib w spec allowed prev_text issues reference))
      in if py_startswith (py_strip c) ''(kicad_sch'' \<and> py_endswith (py_strip c) '')'' then c
         else if prev_text \<noteq> None \<and> the prev_text \<noteq> [] \<and> py_strip (the prev_text) \<noteq> [] then the prev_text
         else seed_schematic ''Untitled'')
   \<and> seed_schematic ''Untitled'' =
       ''(kicad_sch (version 20250114) (generator eeschema)\<newline>  (paper "A4")\<newline>  (title_block (title "Untitled"))\<newline>)\<newline>''
   \<and> well_formed (seed_schematic ''Untitled'')
   \<and> (well_formed (snd (writer_write lib chat w spec allowed prev_text issues reference))
       \<or> prev_text = Some (snd (writer_write lib chat w spec allowed prev_text issues reference)))\<close>
proof -
  let ?c = "candidate_of (chat (sent_messages lib w spec allowed prev_text issues reference))"
  let ?d = "snd (writer_write lib chat w spec allowed prev_text issues reference)"
  have d: "?d = (if well_formed ?c then ?c
                 else if non_blank prev_text then the prev_text else seed_schematic ''Untitled'')"
    by (simp add: write_document Let_def)
  have 1: "?d = (let c = ?c
      in if py_startswith (py_strip c) ''(kicad_sch'' \<and> py_endswith (py_strip c) '')'' then c
         else if prev_text \<noteq> None \<and> the prev_text \<noteq> [] \<and> py_strip (the prev_text) \<noteq> [] then the prev_text
         else seed_schematic ''Untitled'')"
    unfolding d by (cases prev_text) (simp_all add: well_formed_def non_blank_def Let_def)
  have 2: \<open>seed_schematic ''Untitled'' =
       ''(kicad_sch (version 20250114) (generator eeschema)\<newline>  (paper "A4")\<newline>  (title_block (title "Untitled"))\<newline>)\<newline>''\<close>
    by (simp add: seed_schematic_def)
  have 3: "well_formed ?d \<or> prev_text = Some ?d"
    unfolding d using seed_well_formed by (cases prev_text) (simp_all add: non_blank_def)
  from 1 2 3 seed_well_formed show ?thesis by blast
qed

section \<open>Candidate symbols (\<^verbatim>\<open>kicad/rag.py\<close>, \<^verbatim>\<open>kicad/library.py\<close>)\<close>

text \<open>
  The symbol catalogue \<^verbatim>\<open>index_symbols()\<close> is built from the installed libraries; it is a
  parameter here: the libraries in the order of the dictionary, each with its symbol names
  in the order in which its set is iterated.
\<close>

type_synonym symbol_index = "(string \<times> string list) list"

definition list_if_exists :: "symbol_index \<Rightarrow> string \<Rightarrow> string list \<Rightarrow> string list" where
  "list_if_exists index lib symbols =
     (case dict_get index lib of
        None \<Rightarrow> []
      | Some syms \<Rightarrow> map (\<lambda>s. lib @ '':'' @ s) (filter (\<lambda>s. s \<in> set syms) symbols))"

definition search_symbols_by_substrings :: "symbol_index \<Rightarrow> string list \<Rightarrow> (string \<times> string) list" where
  "search_symbols_by_substrings idx substrings =
     (if substrings = [] then []
      else let lowered = map py_lower (filter (\<lambda>s. s \<noteq> []) substrings)
           in concat (map (\<lambda>(lib, syms).
                map (\<lambda>nm. (lib, nm))
                    (filter (\<lambda>nm. list_all (\<lambda>tok. py_contains (py_lower nm) tok) lowered) syms))
              idx))"

text \<open>
  The similarity search: a hit of \<^verbatim>\<open>ChromaClient.query\<close> carries a document and a metadata
  dictionary, either of which may be \<^verbatim>\<open>None\<close>. The query is an oracle; \<^term>\<open>None\<close> is a query
  (or a client construction) that raises.
\<close>

record chroma_hit =
  document :: "string option"
  metadata :: "(string \<times> string) list option"

type_synonym chroma_oracle = "string \<Rightarrow> nat \<Rightarrow> chroma_hit list option"

text \<open>The identifiers of one hit; \<^term>\<open>None\<close> when \<^verbatim>\<open>r.get("metadata", {}).get("lib")\<close> raises
  because the metadata is \<^verbatim>\<open>None\<close>.\<close>

definition hit_lib_ids :: "chroma_hit \<Rightarrow> string list option" where
  "hit_lib_ids r =
     (let doc = (case document r of None \<Rightarrow> [] | Some d \<Rightarrow> d);
          syms = re_findall rx_symbol doc
      in if syms = [] then Some []
         else (case metadata r of
                 None \<Rightarrow> None
               | Some md \<Rightarrow>
                   (let lib = (case dict_get md ''lib'' of None \<Rightarrow> [] | Some l \<Rightarrow> l)
                    in Some (if lib \<noteq> [] then map (\<lambda>sym. lib @ '':'' @ sym) syms else []))))"

fun collect_lib_ids :: "chroma_hit list \<Rightarrow> string list option" where
  "collect_lib_ids [] = Some []"
| "collect_lib_ids (r # rs) =
     (case hit_lib_ids r of
        None \<Rightarrow> None
      | Some ids \<Rightarrow> (case collect_lib_ids rs of None \<Rightarrow> None | Some others \<Rightarrow> Some (ids @ others)))"

text \<open>The order-preserving de-duplication loop (\<^verbatim>\<open>seen\<close>, \<^verbatim>\<open>uniq\<close>).\<close>

fun uniq_loop :: "string list \<Rightarrow> string list \<Rightarrow> string list \<Rightarrow> string list" where
  "uniq_loop [] seen uniq = uniq"
| "uniq_loop (x # xs) seen uniq =
     (if x \<notin> set seen then uniq_loop xs (x # seen) (uniq @ [x]) else uniq_loop xs seen uniq)"

definition chroma_search :: "chroma_oracle \<Rightarrow> string \<Rightarrow> nat \<Rightarrow> string list" where
  "chroma_search chroma query n =
     (case chroma query n of
        None \<Rightarrow> []
      | Some results \<Rightarrow>
          (case collect_lib_ids results of
             None \<Rightarrow> []
           | Some lib_ids \<Rightarrow> take n (uniq_loop lib_ids [] [])))"

text \<open>\<^verbatim>\<open>re.sub(r"[^A-Za-z0-9_]+", "_", value.strip())[:48] or "CustomPart"\<close>\<close>

definition sanitize_value_for_custom :: "string \<Rightarrow> string" where
  "sanitize_value_for_custom v =
     (let base0 = take 48 (re_sub rx_not_word ''_'' (py_strip v));
          base = (if base0 = [] then ''CustomPart'' else base0)
      in ''Custom:'' @ base)"

definition suggest_from_value :: "symbol_index \<Rightarrow> chroma_oracle \<Rightarrow> string \<Rightarrow> string list" where
  "suggest_from_value idx chroma v =
     (let value_l = py_lower v;
          pairs = (\<lambda>toks. map (\<lambda>(lib, sym). lib @ '':'' @ sym) (search_symbols_by_substrings idx toks))
      in chroma_search chroma v 8
         @ (if py_contains value_l ''esp32'' then pairs [''esp32'', ''wroom''] else [])
         @ (if py_contains value_l ''mcp73831'' then pairs [''mcp73831''] else [])
         @ (if py_contains value_l ''hih'' \<or> py_contains value_l ''4030''
            then pairs [''hih'', ''4030''] else []))"

definition is_sentinel :: "string \<Rightarrow> bool" where
  "is_sentinel lib_id = (py_lower lib_id \<in> {''device:u'', ''device:unknown''})"

text \<open>The de-duplicating, capping loop of \<^verbatim>\<open>candidates_for_part\<close>; it leaves at the
  \<^verbatim>\<open>break\<close>.\<close>

fun dedup_cap :: "int \<Rightarrow> string list \<Rightarrow> string list \<Rightarrow> string list \<Rightarrow> string list" where
  "dedup_cap max_per_lib [] seen result = result"
| "dedup_cap max_per_lib (lib_id # cs) seen result =
     (if is_sentinel lib_id then dedup_cap max_per_lib cs seen result
      else if lib_id \<notin> set seen then
        (let result' = result @ [lib_id]
         in if int (length result') \<ge> max_per_lib then result'
            else dedup_cap max_per_lib cs (lib_id # seen) result')
      else dedup_cap max_per_lib cs seen result)"

definition heuristic_candidates ::
  "symbol_index \<Rightarrow> chroma_oracle \<Rightarrow> PartSpec \<Rightarrow> int \<Rightarrow> string list" where
  "heuristic_candidates idx chroma part max_per_lib =
     (let ptype_u = py_upper (ptype part);
          ref_id = py_upper (ref part)
      in if ptype_u = ''R'' \<or> py_startswith ref_id ''R'' then
           slice_to max_per_lib (list_if_exists idx ''Device'' [''R''])
         else if ptype_u = ''C'' \<or> py_startswith ref_id ''C'' then
           slice_to max_per_lib (list_if_exists idx ''Device'' [''C''])
         else if ptype_u \<in> {''CONN'', ''CONNECTOR''} then
           slice_to max_per_lib (list_if_exists idx ''Connector_Generic''
              [''Conn_01x02'', ''Conn_01x03'', ''Conn_01x04'', ''Conn_01x06''])
         else if ptype_u \<in> {''LED'', ''D''} then
           slice_to max_per_lib (list_if_exists idx ''Device'' [''LED'', ''D''])
         else if nonempty_opt (pvalue part) then
           slice_to max_per_lib (suggest_from_value idx chroma (the (pvalue part)))
         else [])"

definition candidates_for_part ::
  "symbol_index \<Rightarrow> chroma_oracle \<Rightarrow> PartSpec \<Rightarrow> int \<Rightarrow> string list" where
  "candidates_for_part idx chroma part max_per_lib =
     (let ref_id = py_upper (ref part);
          result = dedup_cap max_per_lib (heuristic_candidates idx chroma part max_per_lib) [] []
      in if result = [] then
           (if nonempty_opt (pvalue part) then [sanitize_value_for_custom (the (pvalue part))]
            else [''Custom:'' @ (if ref_id = [] then ''Unknown'' else ref_id)])
         else result)"

text \<open>\<^verbatim>\<open>d[k] = v\<close> on an insertion-ordered dictionary: a key already present keeps its
  place.\<close>

fun dict_set :: "(string \<times> 'v) list \<Rightarrow> string \<Rightarrow> 'v \<Rightarrow> (string \<times> 'v) list" where
  "dict_set [] k v = [(k, v)]"
| "dict_set ((k', v') # d) k v = (if k' = k then (k, v) # d else (k', v') # dict_set d k v)"

text \<open>The dictionary comprehension of \<^verbatim>\<open>candidates_for_parts\<close>.\<close>

definition candidates_for_parts ::
  "symbol_index \<Rightarrow> chroma_oracle \<Rightarrow> PartSpec list \<Rightarrow> int \<Rightarrow> allowed_table" where
  "candidates_for_parts idx chroma ps max_per_lib =
     foldl (\<lambda>d p. dict_set d (ref p) (candidates_for_part idx chroma p max_per_lib)) [] ps"

subsection \<open>The allowed-identifier table\<close>

definition demo_index :: symbol_index where
  "demo_index = [(''Device'', [''R'', ''C'', ''U''])]"

definition demo_parts :: "PartSpec list" where
  "demo_parts =
     [\<lparr>ref = ''R1'', ptype = ''R'', symbol = None, pvalue = Some ''10k'', pins = [],
       position = None, rotation = Some 0\<rparr>,
      \<lparr>ref = ''U1'', ptype = ''MCU'', symbol = None, pvalue = None, pins = [],
       position = None, rotation = Some 0\<rparr>]"

lemma dedup_cap_props:
  "distinct result \<Longrightarrow> set result \<subseteq> set seen \<Longrightarrow> \<forall>x\<in>set result. \<not> is_sentinel x \<Longrightarrow>
   int (length result) < cap \<Longrightarrow>
   distinct (dedup_cap cap cs seen result)
   \<and> (\<forall>x\<in>set (dedup_cap cap cs seen result). \<not> is_sentinel x)
   \<and> int (length (dedup_cap cap cs seen result)) \<le> cap"
proof (induction cs arbitrary: seen result)
  case Nil
  then show ?case by simp
next
  case (Cons c cs)
  show ?case
  proof (cases "is_sentinel c \<or> c \<in> set seen")
    case True
    then show ?thesis using Cons.IH [of result seen] Cons.prems by auto
  next
    case False
    let ?r = "result @ [c]"
    have d: "distinct ?r" using False Cons.prems by auto
    have s: "\<forall>x\<in>set ?r. \<not> is_sentinel x" using False Cons.prems by auto
    show ?thesis
    proof (cases "int (length ?r) \<ge> cap")
      case True
      then have "dedup_cap cap (c # cs) seen result = ?r" using False by simp
      moreover have "int (length ?r) \<le> cap" using Cons.prems by simp
      ultimately show ?thesis using d s by simp
    next
      case F2: False
      then have e: "dedup_cap cap (c # cs) seen result = dedup_cap cap cs (c # seen) ?r"
        using False by simp
      have "set ?r \<subseteq> set (c # seen)" using Cons.prems by auto
      with Cons.IH [of ?r "c # seen"] d s F2 show ?thesis unfolding e by simp
    qed
  qed
qed

lemma custom_not_sentinel [simp]: "\<not> is_sentinel (CHR ''C'' # b)"
  by (simp add: is_sentinel_def py_lower_def lower_char_def ascii_upper_def ascii_lower_def)

lemma candidates_for_part_props:
  assumes "1 \<le> cap"
  shows "candidates_for_part idx chroma p cap \<noteq> []
       \<and> int (length (candidates_for_part idx chroma p cap)) \<le> cap
       \<and> distinct (candidates_for_part idx chroma p cap)
       \<and> (\<forall>x\<in>set (candidates_for_part idx chroma p cap). \<not> is_sentinel x)"
proof -
  let ?r = "dedup_cap cap (heuristic_candidates idx chroma p cap) [] []"
  have r: "distinct ?r \<and> (\<forall>x\<in>set ?r. \<not> is_sentinel x) \<and> int (length ?r) \<le> cap"
    using dedup_cap_props [of "[]" "[]" cap] assms by simp
  show ?thesis
  proof (cases "?r = []")
    case True
    then show ?thesis using assms
      by (simp add: candidates_for_part_def Let_def sanitize_value_for_custom_def)
  next
    case False
    then show ?thesis using r by (simp add: candidates_for_part_def Let_def)
  qed
qed

lemma dict_set_fresh: "k \<notin> fst ` set d \<Longrightarrow> dict_set d k v = d @ [(k, v)]"
  by (induction d) auto

lemma foldl_dict_set_distinct:
  "distinct (map fst d @ map kf ps) \<Longrightarrow>
   foldl (\<lambda>d p. dict_set d (kf p) (vf p)) d ps = d @ map (\<lambda>p. (kf p, vf p)) ps"
proof (induction ps arbitrary: d)
  case Nil
  then show ?case by simp
next
  case (Cons p ps)
  have f: "kf p \<notin> fst ` set d" using Cons.prems by auto
  have "distinct (map fst (d @ [(kf p, vf p)]) @ map kf ps)" using Cons.prems by auto
  from Cons.IH [OF this] show ?case by (simp add: dict_set_fresh [OF f])
qed

lemma candidates_for_parts_map:
  "distinct (map ref ps) \<Longrightarrow>
   candidates_for_parts idx chroma ps cap = map (\<lambda>p. (ref p, candidates_for_part idx chroma p cap)) ps"
  unfolding candidates_for_parts_def
  using foldl_dict_set_distinct [of "[]" ref ps "\<lambda>p. candidates_for_part idx chroma p cap"] by simp

text \<open>
  C5. For parts with distinct references and a cap of at least 1, the table has exactly
  one key per part, in input order; every value is non-empty, no longer than the cap and
  free of duplicates, and none of its entries is a sentinel (\<^verbatim>\<open>Device:U\<close> or
  \<^verbatim>\<open>Device:Unknown\<close> in any letter case).
\<close>

theorem candidates_for_parts_table:
  assumes "distinct (map ref ps)" and "1 \<le> cap"
  shows "map fst (candidates_for_parts idx chroma ps cap) = map ref ps
       \<and> length (candidates_for_parts idx chroma ps cap) = length ps
       \<and> (\<forall>(k, v) \<in> set (candidates_for_parts idx chroma ps cap).
            v \<noteq> [] \<and> int (length v) \<le> cap \<and> distinct v
            \<and> (\<forall>x\<in>set v. py_lower x \<notin> {''device:u'', ''device:unknown''}))"
proof -
  have m: "candidates_for_parts idx chroma ps cap
           = map (\<lambda>p. (ref p, candidates_for_part idx chroma p cap)) ps"
    using assms(1) by (rule candidates_for_parts_map)
  have k: "map fst (candidates_for_parts idx chroma ps cap) = map ref ps"
    unfolding m by (simp add: comp_def)
  have v: "\<forall>(k, v) \<in> set (candidates_for_parts idx chroma ps cap).
            v \<noteq> [] \<and> int (length v) \<le> cap \<and> distinct v
            \<and> (\<forall>x\<in>set v. py_lower x \<notin> {''device:u'', ''device:unknown''})"
    unfolding m using candidates_for_part_props [OF assms(2), of idx chroma]
    by (auto simp: is_sentinel_def)
  from k v m show ?thesis by simp
qed

theorem candidates_for_parts_table_witness:
  "distinct (map ref demo_parts) \<and> (1::int) \<le> 10
   \<and> candidates_for_parts demo_index (\<lambda>q n. None) demo_parts 10
      = [(''R1'', [''Device:R'']), (''U1'', [''Custom:U1''])]
   \<and> map fst (candidates_for_parts demo_index (\<lambda>q n. None) demo_parts 10) = [''R1'', ''U1'']"
proof -
  have d: "distinct (map ref demo_parts)" by (simp add: demo_parts_def)
  have e: "candidates_for_parts demo_index (\<lambda>q n. None) demo_parts 10
      = [(''R1'', [''Device:R'']), (''U1'', [''Custom:U1''])]"
    by code_simp
  from candidates_for_parts_table [OF d, of 10 demo_index "\<lambda>q n. None"] d e show ?thesis
    by (simp add: demo_parts_def)
qed

section \<open>Loading the circuit specification (\<^verbatim>\<open>core/ingest.py\<close>)\<close>

text \<open>Decimal digits of a natural number, for \<^verbatim>\<open>f"U{index+1}"\<close>.\<close>

fun str_of_nat :: "nat \<Rightarrow> string" where
  "str_of_nat n =
     (if n < 10 then [''0123456789'' ! n]
      else str_of_nat (n div 10) @ [''0123456789'' ! (n mod 10)])"

declare str_of_nat.simps [simp del]

text \<open>\<^verbatim>\<open>str(v)\<close>: a string is itself, anything else is left to the library.\<close>

definition str_of :: "pylib \<Rightarrow> json \<Rightarrow> string" where
  "str_of lib v = (case v of JStr s \<Rightarrow> s | _ \<Rightarrow> py_str lib v)"

text \<open>A value handed to a pydantic field of type \<^verbatim>\<open>Optional[str]\<close>; the outer \<^term>\<open>None\<close> is
  a validation error.\<close>

definition validate_opt_str :: "pylib \<Rightarrow> json option \<Rightarrow> string option option" where
  "validate_opt_str lib v =
     (case v of
        None \<Rightarrow> Some None
      | Some JNull \<Rightarrow> Some None
      | Some (JStr s) \<Rightarrow> Some (Some s)
      | Some other \<Rightarrow> map_option Some (pydantic_str lib other))"

text \<open>\<^verbatim>\<open>for x in v\<close>: a list yields its elements, a dictionary its keys, a string its
  characters; nothing else can be iterated.\<close>

definition py_iter :: "json \<Rightarrow> py_error + json list" where
  "py_iter v =
     (case v of
        JList xs \<Rightarrow> Inr xs
      | JDict d \<Rightarrow> Inr (map (\<lambda>(k, x). JStr k) d)
      | JStr s \<Rightarrow> Inr (map (\<lambda>c. JStr [c]) s)
      | _ \<Rightarrow> Inl TypeError)"

text \<open>\<^verbatim>\<open>(component.get("category") or "").lower()\<close>\<close>

definition category_of :: "json option \<Rightarrow> py_error + string" where
  "category_of v =
     (case v of
        None \<Rightarrow> Inr []
      | Some (JStr s) \<Rightarrow> Inr (py_lower s)
      | Some other \<Rightarrow> if py_truthy other then Inl AttributeError else Inr [])"

definition guess_type_symbol :: "string \<Rightarrow> string \<Rightarrow> string \<times> string option" where
  "guess_type_symbol category cid_str =
     (if category = ''passive'' then
        (if py_startswith (py_upper cid_str) ''C'' then (''C'', Some ''Device:C'')
         else if py_startswith (py_upper cid_str) ''R'' then (''R'', Some ''Device:R'')
         else (''R'', Some ''Device:R''))
      else if category \<in> {''microcontroller'', ''processor'', ''mcu''} then (''MCU'', Some ''Device:U'')
      else if category \<in> {''sensor'', ''power-protection'', ''power-supply''} then (''U'', Some ''Device:U'')
      else if category = ''connector'' then (''Conn'', Some ''Connector_Generic:Conn_01x02'')
      else (''U'', None))"

definition map_component_to_partspec :: "pylib \<Rightarrow> json \<Rightarrow> nat \<Rightarrow> py_error + PartSpec" where
  "map_component_to_partspec lib component index =
     (case component of
        JDict d \<Rightarrow>
          (let cid = (case dict_get d ''id'' of
                        None \<Rightarrow> JStr (''U'' @ str_of_nat (index + 1))
                      | Some v \<Rightarrow> v)
           in case category_of (dict_get d ''category'') of
                Inl e \<Rightarrow> Inl e
              | Inr category \<Rightarrow>
                  (let (type_guess, symbol_guess) = guess_type_symbol category (str_of lib cid)
                   in case validate_opt_str lib (dict_get d ''value'') of
                        None \<Rightarrow> Inl ValidationError
                      | Some v \<Rightarrow>
                          Inr \<lparr>ref = str_of lib cid, ptype = type_guess, symbol = symbol_guess,
                               pvalue = v, pins = [], position = None, rotation = Some 0\<rparr>))
      | _ \<Rightarrow> Inl AttributeError)"

text \<open>The loop over the components: one that raises is skipped.\<close>

fun components_loop :: "pylib \<Rightarrow> nat \<Rightarrow> json list \<Rightarrow> PartSpec list" where
  "components_loop lib idx [] = []"
| "components_loop lib idx (component # components) =
     (case map_component_to_partspec lib component idx of
        Inl e \<Rightarrow> components_loop lib (Suc idx) components
      | Inr p \<Rightarrow> p # components_loop lib (Suc idx) components)"

text \<open>One candidate name: appended when it is a non-empty string not yet seen. The state
  is the list of nets and the set \<^verbatim>\<open>seen\<close>.\<close>

definition add_net :: "NetSpec list \<times> string list \<Rightarrow> json option \<Rightarrow> NetSpec list \<times> string list" where
  "add_net acc v =
     (case v of
        Some (JStr s) \<Rightarrow>
          if s \<noteq> [] \<and> s \<notin> set (snd acc) then (fst acc @ [\<lparr>name = s\<rparr>], s # snd acc) else acc
      | _ \<Rightarrow> acc)"

fun nets_loop :: "json list \<Rightarrow> NetSpec list \<times> string list \<Rightarrow> py_error + NetSpec list \<times> string list" where
  "nets_loop [] acc = Inr acc"
| "nets_loop (n # ns) acc =
     (case n of
        JDict d \<Rightarrow> nets_loop ns (add_net (add_net acc (dict_get d ''id'')) (dict_get d ''name''))
      | _ \<Rightarrow> Inl AttributeError)"

fun power_domains_loop :: "json list \<Rightarrow> NetSpec list \<times> string list \<Rightarrow> py_error + NetSpec list \<times> string list" where
  "power_domains_loop [] acc = Inr acc"
| "power_domains_loop (pd # pds) acc =
     (case pd of
        JDict d \<Rightarrow> power_domains_loop pds (add_net acc (dict_get d ''name''))
      | _ \<Rightarrow> Inl AttributeError)"

text \<open>\<^verbatim>\<open>data.get(key, [])\<close>\<close>

definition get_or_empty_list :: "(string \<times> json) list \<Rightarrow> string \<Rightarrow> json" where
  "get_or_empty_list data k = (case dict_get data k of None \<Rightarrow> JList [] | Some v \<Rightarrow> v)"

text \<open>\<^verbatim>\<open>data.get("device", {}).get("name") or "Untitled"\<close>\<close>

definition device_title :: "(string \<times> json) list \<Rightarrow> py_error + json" where
  "device_title data =
     (case (case dict_get data ''device'' of None \<Rightarrow> JDict [] | Some v \<Rightarrow> v) of
        JDict dev \<Rightarrow>
          (case dict_get dev ''name'' of
             None \<Rightarrow> Inr (JStr ''Untitled'')
           | Some v \<Rightarrow> Inr (if py_truthy v then v else JStr ''Untitled''))
      | _ \<Rightarrow> Inl AttributeError)"

definition append_gnd :: "NetSpec list \<times> string list \<Rightarrow> NetSpec list" where
  "append_gnd acc = (if ''GND'' \<notin> set (snd acc) then fst acc @ [\<lparr>name = ''GND''\<rparr>] else fst acc)"

definition convert_pseudo_cad_schema :: "pylib \<Rightarrow> (string \<times> json) list \<Rightarrow> py_error + CircuitSpec" where
  "convert_pseudo_cad_schema lib data =
     (case device_title data of
        Inl e \<Rightarrow> Inl e
      | Inr title_v \<Rightarrow>
     (case py_iter (get_or_empty_list data ''components'') of
        Inl e \<Rightarrow> Inl e
      | Inr comps \<Rightarrow>
     (let ps = components_loop lib 0 comps
      in case py_iter (get_or_empty_list data ''nets'') of
        Inl e \<Rightarrow> Inl e
      | Inr ns \<Rightarrow>
     (case nets_loop ns ([], []) of
        Inl e \<Rightarrow> Inl e
      | Inr acc1 \<Rightarrow>
     (case py_iter (get_or_empty_list data ''powerDomains'') of
        Inl e \<Rightarrow> Inl e
      | Inr pds \<Rightarrow>
     (case power_domains_loop pds acc1 of
        Inl e \<Rightarrow> Inl e
      | Inr acc2 \<Rightarrow>
     (case validate_opt_str lib (Some title_v) of
        None \<Rightarrow> Inl ValidationError
      | Some t \<Rightarrow> Inr \<lparr>title = t, parts = ps, nets = append_gnd acc2\<rparr>)))))))"

definition default_circuit :: CircuitSpec where
  "default_circuit = \<lparr>title = Some ''Untitled'', parts = [], nets = []\<rparr>"

text \<open>The part of \<^verbatim>\<open>load_circuit_spec\<close> after \<^verbatim>\<open>json.loads\<close>.\<close>

definition load_decoded :: "pylib \<Rightarrow> json \<Rightarrow> py_error + CircuitSpec" where
  "load_decoded lib raw =
     (case raw of
        JDict d \<Rightarrow>
          if ''components'' \<in> set (map fst d) then convert_pseudo_cad_schema lib d
          else if ''parts'' \<in> set (map fst d) \<or> ''nets'' \<in> set (map fst d) then
            (case circuit_from_dict lib d of None \<Rightarrow> Inl ValidationError | Some c \<Rightarrow> Inr c)
          else Inr default_circuit
      | _ \<Rightarrow> Inr default_circuit)"

text \<open>\<^verbatim>\<open>load_circuit_spec\<close> on the content of the input file, \<^term>\<open>None\<close> for a file that
  cannot be read. Neither the read nor the decoding is guarded in the source.\<close>

definition load_circuit_spec :: "pylib \<Rightarrow> string option \<Rightarrow> py_error + CircuitSpec" where
  "load_circuit_spec lib file =
     (case file of
        None \<Rightarrow> Inl OSError
      | Some raw_text \<Rightarrow>
          (case json_loads lib raw_text of
             None \<Rightarrow> Inl JSONDecodeError
           | Some raw \<Rightarrow> load_decoded lib raw))"

subsection \<open>Nets of a pseudo-CAD input\<close>

text \<open>The names the claim speaks of: what an entry of \<^verbatim>\<open>nets\<close> or \<^verbatim>\<open>powerDomains\<close> supplies (a
  non-empty string under \<^verbatim>\<open>id\<close> or \<^verbatim>\<open>name\<close>), and the first occurrences of a list.\<close>

definition valid_name :: "json option \<Rightarrow> string list" where
  "valid_name v = (case v of Some (JStr s) \<Rightarrow> if s \<noteq> [] then [s] else [] | _ \<Rightarrow> [])"

definition net_names :: "json list \<Rightarrow> string list" where
  "net_names ns = concat (map (\<lambda>n. case n of
       JDict d \<Rightarrow> valid_name (dict_get d ''id'') @ valid_name (dict_get d ''name'')
     | _ \<Rightarrow> []) ns)"

definition power_domain_names :: "json list \<Rightarrow> string list" where
  "power_domain_names pds = concat (map (\<lambda>pd. case pd of
       JDict d \<Rightarrow> valid_name (dict_get d ''name'')
     | _ \<Rightarrow> []) pds)"

definition first_occurrences :: "'a list \<Rightarrow> 'a list" where
  "first_occurrences xs = rev (remdups (rev xs))"

text \<open>An input in the pseudo-CAD shape: \<^verbatim>\<open>device\<close> is a dictionary whose \<^verbatim>\<open>name\<close> is a string
  or absent, \<^verbatim>\<open>components\<close> is a list, \<^verbatim>\<open>nets\<close> and \<^verbatim>\<open>powerDomains\<close> are lists of dictionaries
  (each key may be missing).\<close>

definition is_dict :: "json \<Rightarrow> bool" where
  "is_dict v = (case v of JDict d \<Rightarrow> True | _ \<Rightarrow> False)"

definition list_of_dicts :: "json option \<Rightarrow> bool" where
  "list_of_dicts v = (case v of None \<Rightarrow> True | Some (JList xs) \<Rightarrow> list_all is_dict xs | _ \<Rightarrow> False)"

definition pseudo_cad_shape :: "(string \<times> json) list \<Rightarrow> bool" where
  "pseudo_cad_shape data =
     ((case dict_get data ''device'' of
         None \<Rightarrow> True
       | Some (JDict dev) \<Rightarrow>
           (case dict_get dev ''name'' of
              None \<Rightarrow> True | Some JNull \<Rightarrow> True | Some (JStr s) \<Rightarrow> True | _ \<Rightarrow> False)
       | _ \<Rightarrow> False)
      \<and> (case dict_get data ''components'' of None \<Rightarrow> True | Some (JList xs) \<Rightarrow> True | _ \<Rightarrow> False)
      \<and> list_of_dicts (dict_get data ''nets'')
      \<and> list_of_dicts (dict_get data ''powerDomains''))"

text \<open>Appending a name unless it is there, and the invariant of the loops: \<^verbatim>\<open>seen\<close> holds
  the names of the nets collected so far.\<close>

definition add1 :: "string list \<Rightarrow> string \<Rightarrow> string list" where
  "add1 l s = (if s \<in> set l then l else l @ [s])"

definition acc_inv :: "NetSpec list \<times> string list \<Rightarrow> bool" where
  "acc_inv acc = (set (snd acc) = set (map name (fst acc)))"


definition has_key :: "json \<Rightarrow> string \<Rightarrow> bool" where
  "has_key raw k = (case raw of JDict d \<Rightarrow> k \<in> set (map fst d) | _ \<Rightarrow> False)"


text \<open>A stand-in for the library on the texts and values used in the examples below: it
  decodes the listed texts as \<^verbatim>\<open>json.loads\<close> does and rejects \<^verbatim>\<open>{"parts": \<close>, which is not JSON.\<close>

definition demo_pseudo_cad :: "(string \<times> json) list" where
  "demo_pseudo_cad =
     [(''device'', JDict [(''name'', JStr ''Sensor board'')]),
      (''components'', JList [JDict [(''id'', JStr ''C1''), (''category'', JStr ''passive'')]]),
      (''nets'', JList [JDict [(''id'', JStr ''N1''), (''name'', JStr ''VCC'')],
                        JDict [(''id'', JStr ''VCC''), (''name'', JStr ''SDA'')]]),
      (''powerDomains'', JList [JDict [(''name'', JStr ''VCC'')], JDict [(''name'', JStr ''3V3'')]])]"

definition demo_lib :: pylib where
  \<open>demo_lib = \<lparr>
     json_loads = map_of [(''[1, 2]'', JList [JInt 1, JInt 2]),
                          (''{"components": [], "nets": ["GND"]}'',
                             JDict [(''components'', JList []), (''nets'', JList [JStr ''GND''])]),
                          (''{"components": []}'', JDict [(''components'', JList [])])],
     json_dumps = (\<lambda>v. []),
     py_str = (\<lambda>v. []),
     pydantic_str = (\<lambda>v. None),
     circuit_from_dict = (\<lambda>d. None)\<rparr>\<close>


lemma add_net_names:
  assumes "acc_inv acc"
  shows "acc_inv (add_net acc v)
       \<and> map name (fst (add_net acc v)) = foldl add1 (map name (fst acc)) (valid_name v)"
proof (cases v)
  case None
  then show ?thesis using assms by (simp add: add_net_def valid_name_def)
next
  case (Some j)
  then show ?thesis using assms
    by (cases j) (auto simp: add_net_def valid_name_def add1_def acc_inv_def)
qed

lemma nets_loop_names:
  "acc_inv acc \<Longrightarrow> nets_loop ns acc = Inr acc' \<Longrightarrow>
   acc_inv acc' \<and> map name (fst acc') = foldl add1 (map name (fst acc)) (net_names ns)"
proof (induction ns arbitrary: acc)
  case Nil
  then show ?case by (simp add: net_names_def)
next
  case (Cons n ns)
  from Cons.prems(2) obtain d where n: "n = JDict d" by (cases n) auto
  let ?a = "add_net (add_net acc (dict_get d ''id'')) (dict_get d ''name'')"
  have a1: "acc_inv (add_net acc (dict_get d ''id''))"
    and m1: "map name (fst (add_net acc (dict_get d ''id'')))
             = foldl add1 (map name (fst acc)) (valid_name (dict_get d ''id''))"
    using add_net_names [OF Cons.prems(1)] by auto
  have a2: "acc_inv ?a"
    and m2: "map name (fst ?a) = foldl add1 (map name (fst acc))
               (valid_name (dict_get d ''id'') @ valid_name (dict_get d ''name''))"
    using add_net_names [OF a1, of "dict_get d ''name''"] m1 by auto
  have "nets_loop ns ?a = Inr acc'" using Cons.prems(2) by (simp add: n)
  from Cons.IH [OF a2 this] m2 show ?case by (simp add: net_names_def n)
qed

lemma power_domains_loop_names:
  "acc_inv acc \<Longrightarrow> power_domains_loop pds acc = Inr acc' \<Longrightarrow>
   acc_inv acc' \<and> map name (fst acc') = foldl add1 (map name (fst acc)) (power_domain_names pds)"
proof (induction pds arbitrary: acc)
  case Nil
  then show ?case by (simp add: power_domain_names_def)
next
  case (Cons pd pds)
  from Cons.prems(2) obtain d where n: "pd = JDict d" by (cases pd) auto
  let ?a = "add_net acc (dict_get d ''name'')"
  have a2: "acc_inv ?a"
    and m2: "map name (fst ?a) = foldl add1 (map name (fst acc)) (valid_name (dict_get d ''name''))"
    using add_net_names [OF Cons.prems(1)] by auto
  have "power_domains_loop pds ?a = Inr acc'" using Cons.prems(2) by (simp add: n)
  from Cons.IH [OF a2 this] m2 show ?case by (simp add: power_domain_names_def n)
qed

lemma foldl_add1_first_occurrences:
  "distinct l \<Longrightarrow> foldl add1 l xs = first_occurrences (l @ xs)"
proof (induction xs arbitrary: l)
  case Nil
  then show ?case by (simp add: first_occurrences_def distinct_remdups_id)
next
  case (Cons x xs)
  show ?case
  proof (cases "x \<in> set l")
    case True
    have "remdups (rev xs @ x # rev l) = remdups (rev xs @ remdups (x # rev l))"
      by (simp only: remdups_append2)
    also have "\<dots> = remdups (rev xs @ remdups (rev l))" using True by simp
    also have "\<dots> = remdups (rev xs @ rev l)" by (simp only: remdups_append2)
    finally show ?thesis using True Cons.IH [OF Cons.prems]
      by (simp add: add1_def first_occurrences_def)
  next
    case False
    then have "distinct (l @ [x])" using Cons.prems by simp
    from Cons.IH [OF this] False show ?thesis by (simp add: add1_def)
  qed
qed

lemma nets_loop_total: "list_all is_dict ns \<Longrightarrow> \<exists>acc'. nets_loop ns acc = Inr acc'"
proof (induction ns arbitrary: acc)
  case Nil
  then show ?case by simp
next
  case (Cons n ns)
  then show ?case by (cases n) (simp_all add: is_dict_def)
qed

lemma power_domains_loop_total:
  "list_all is_dict pds \<Longrightarrow> \<exists>acc'. power_domains_loop pds acc = Inr acc'"
proof (induction pds arbitrary: acc)
  case Nil
  then show ?case by simp
next
  case (Cons n ns)
  then show ?case by (cases n) (simp_all add: is_dict_def)
qed

lemma list_of_dicts_iter:
  "list_of_dicts (dict_get data k) \<Longrightarrow>
   \<exists>xs. py_iter (get_or_empty_list data k) = Inr xs \<and> list_all is_dict xs"
  by (auto simp: list_of_dicts_def get_or_empty_list_def py_iter_def
      split: option.splits json.splits)


lemma convert_nets:
  assumes "convert_pseudo_cad_schema lib data = Inr c"
  shows "\<exists>ns pds. py_iter (get_or_empty_list data ''nets'') = Inr ns
           \<and> py_iter (get_or_empty_list data ''powerDomains'') = Inr pds
           \<and> map name (nets c) =
               first_occurrences (net_names ns @ power_domain_names pds)
               @ (if ''GND'' \<in> set (net_names ns @ power_domain_names pds) then [] else [''GND''])"
proof -
  from assms obtain ns acc1 pds acc2 where
    ns: "py_iter (get_or_empty_list data ''nets'') = Inr ns" and
    l1: "nets_loop ns ([], []) = Inr acc1" and
    pds: "py_iter (get_or_empty_list data ''powerDomains'') = Inr pds" and
    l2: "power_domains_loop pds acc1 = Inr acc2" and
    c: "nets c = append_gnd acc2"
    by (auto simp: convert_pseudo_cad_schema_def Let_def split: sum.splits option.splits)
  have i0: "acc_inv ([], [])" by (simp add: acc_inv_def)
  from nets_loop_names [OF i0 l1]
  have i1: "acc_inv acc1" and n1: "map name (fst acc1) = foldl add1 [] (net_names ns)" by auto
  from power_domains_loop_names [OF i1 l2] n1
  have i2: "acc_inv acc2"
    and n2: "map name (fst acc2) = foldl add1 [] (net_names ns @ power_domain_names pds)"
    by auto
  have "foldl add1 [] (net_names ns @ power_domain_names pds)
        = first_occurrences ([] @ (net_names ns @ power_domain_names pds))"
    by (rule foldl_add1_first_occurrences) simp
  with n2 have n3: "map name (fst acc2) = first_occurrences (net_names ns @ power_domain_names pds)"
    by (simp only: append_Nil)
  have s: "set (snd acc2) = set (net_names ns @ power_domain_names pds)"
    using i2 n3 by (auto simp: acc_inv_def first_occurrences_def)
  have "map name (nets c) =
      first_occurrences (net_names ns @ power_domain_names pds)
      @ (if ''GND'' \<in> set (net_names ns @ power_domain_names pds) then [] else [''GND''])"
    unfolding c append_gnd_def using n3 s by simp
  with ns pds show ?thesis by (intro exI conjI)
qed

lemma device_title_shape:
  assumes "case dict_get data ''device'' of
         None \<Rightarrow> True
       | Some (JDict dev) \<Rightarrow>
           (case dict_get dev ''name'' of
              None \<Rightarrow> True | Some JNull \<Rightarrow> True | Some (JStr s) \<Rightarrow> True | _ \<Rightarrow> False)
       | _ \<Rightarrow> False"
  shows "\<exists>s. device_title data = Inr (JStr s)"
proof (cases "dict_get data ''device''")
  case None
  then show ?thesis by (simp add: device_title_def dict_get_def)
next
  case (Some v)
  with assms obtain dev where v: "v = JDict dev" by (cases v) auto
  show ?thesis
  proof (cases "dict_get dev ''name''")
    case None
    then show ?thesis by (simp add: device_title_def Some v)
  next
    case (Some n)
    with assms \<open>dict_get data ''device'' = Some v\<close> v show ?thesis
      by (cases n) (simp_all add: device_title_def)
  qed
qed

lemma components_shape:
  assumes "case dict_get data ''components'' of None \<Rightarrow> True | Some (JList xs) \<Rightarrow> True | _ \<Rightarrow> False"
  shows "\<exists>cs. py_iter (get_or_empty_list data ''components'') = Inr cs"
proof (cases "dict_get data ''components''")
  case None
  then show ?thesis by (simp add: get_or_empty_list_def py_iter_def)
next
  case (Some v)
  with assms show ?thesis by (cases v) (simp_all add: get_or_empty_list_def py_iter_def)
qed

lemma convert_total:
  assumes "pseudo_cad_shape data"
  shows "\<exists>c. convert_pseudo_cad_schema lib data = Inr c"
proof -
  from assms have
    a1: "case dict_get data ''device'' of
         None \<Rightarrow> True
       | Some (JDict dev) \<Rightarrow>
           (case dict_get dev ''name'' of
              None \<Rightarrow> True | Some JNull \<Rightarrow> True | Some (JStr s) \<Rightarrow> True | _ \<Rightarrow> False)
       | _ \<Rightarrow> False" and
    a2: "case dict_get data ''components'' of None \<Rightarrow> True | Some (JList xs) \<Rightarrow> True | _ \<Rightarrow> False" and
    a3: "list_of_dicts (dict_get data ''nets'')" and
    a4: "list_of_dicts (dict_get data ''powerDomains'')"
    unfolding pseudo_cad_shape_def by blast+
  from device_title_shape [OF a1] obtain s where t: "device_title data = Inr (JStr s)" ..
  from components_shape [OF a2] obtain cs where
    cs: "py_iter (get_or_empty_list data ''components'') = Inr cs" ..
  from list_of_dicts_iter [OF a3] obtain ns where
    ns: "py_iter (get_or_empty_list data ''nets'') = Inr ns" and nd: "list_all is_dict ns"
    by (elim exE conjE)
  from list_of_dicts_iter [OF a4] obtain pds where
    pds: "py_iter (get_or_empty_list data ''powerDomains'') = Inr pds" and pd: "list_all is_dict pds"
    by (elim exE conjE)
  from nets_loop_total [OF nd] obtain acc1 where l1: "nets_loop ns ([], []) = Inr acc1" ..
  from power_domains_loop_total [OF pd] obtain acc2 where l2: "power_domains_loop pds acc1 = Inr acc2" ..
  show ?thesis
    by (simp add: convert_pseudo_cad_schema_def t cs ns pds l1 l2 validate_opt_str_def)
qed

text \<open>
  C10. An input in the pseudo-CAD shape is converted without an exception, and whenever
  the conversion returns, the names of the circuit's nets are distinct, contain \<^verbatim>\<open>GND\<close>, and
  are the first occurrences of the names supplied by \<^verbatim>\<open>nets\<close> (\<^verbatim>\<open>id\<close> before \<^verbatim>\<open>name\<close>) and then
  by \<^verbatim>\<open>powerDomains\<close>, followed by \<^verbatim>\<open>GND\<close> when none of them supplies it.
\<close>

theorem pseudo_cad_nets_distinct_with_gnd:
  "(pseudo_cad_shape data \<longrightarrow> (\<exists>c. convert_pseudo_cad_schema lib data = Inr c))
   \<and> (\<forall>c. convert_pseudo_cad_schema lib data = Inr c \<longrightarrow>
         distinct (map name (nets c))
         \<and> ''GND'' \<in> set (map name (nets c))
         \<and> (\<exists>ns pds. py_iter (get_or_empty_list data ''nets'') = Inr ns
               \<and> py_iter (get_or_empty_list data ''powerDomains'') = Inr pds
               \<and> map name (nets c) =
                   first_occurrences (net_names ns @ power_domain_names pds)
                   @ (if ''GND'' \<in> set (net_names ns @ power_domain_names pds) then [] else [''GND''])))"
proof (intro conjI allI impI)
  assume "pseudo_cad_shape data"
  then show "\<exists>c. convert_pseudo_cad_schema lib data = Inr c" by (rule convert_total)
next
  fix c assume a: "convert_pseudo_cad_schema lib data = Inr c"
  from convert_nets [OF a] obtain ns pds where
    ns: "py_iter (get_or_empty_list data ''nets'') = Inr ns" and
    pds: "py_iter (get_or_empty_list data ''powerDomains'') = Inr pds" and
    m: "map name (nets c) =
          first_occurrences (net_names ns @ power_domain_names pds)
          @ (if ''GND'' \<in> set (net_names ns @ power_domain_names pds) then [] else [''GND''])"
    by (elim exE conjE)
  show "distinct (map name (nets c))"
    unfolding m by (simp add: first_occurrences_def)
  show "''GND'' \<in> set (map name (nets c))"
    unfolding m by (simp add: first_occurrences_def)
  from ns pds m show "\<exists>ns pds. py_iter (get_or_empty_list data ''nets'') = Inr ns
               \<and> py_iter (get_or_empty_list data ''powerDomains'') = Inr pds
               \<and> map name (nets c) =
                   first_occurrences (net_names ns @ power_domain_names pds)
                   @ (if ''GND'' \<in> set (net_names ns @ power_domain_names pds) then [] else [''GND''])"
    by (intro exI conjI)
qed

theorem pseudo_cad_nets_distinct_with_gnd_witness:
  "pseudo_cad_shape demo_pseudo_cad
   \<and> (\<exists>c. convert_pseudo_cad_schema demo_lib demo_pseudo_cad = Inr c
          \<and> map name (nets c) = [''N1'', ''VCC'', ''SDA'', ''3V3'', ''GND'']
          \<and> distinct (map name (nets c)) \<and> ''GND'' \<in> set (map name (nets c)))"
proof -
  have s: "pseudo_cad_shape demo_pseudo_cad"
    by (simp add: pseudo_cad_shape_def demo_pseudo_cad_def dict_get_def list_of_dicts_def is_dict_def)
  have e: "convert_pseudo_cad_schema demo_lib demo_pseudo_cad =
      Inr \<lparr>title = Some ''Sensor board'',
           parts = [\<lparr>ref = ''C1'', ptype = ''C'', symbol = Some ''Device:C'', pvalue = None,
                     pins = [], position = None, rotation = Some 0\<rparr>],
           nets = [\<lparr>name = ''N1''\<rparr>, \<lparr>name = ''VCC''\<rparr>, \<lparr>name = ''SDA''\<rparr>, \<lparr>name = ''3V3''\<rparr>,
                   \<lparr>name = ''GND''\<rparr>]\<rparr>"
    by code_simp
  from pseudo_cad_nets_distinct_with_gnd [of demo_pseudo_cad demo_lib] e
  have "distinct (map name [\<lparr>name = ''N1''\<rparr>, \<lparr>name = ''VCC''\<rparr>, \<lparr>name = ''SDA''\<rparr>,
          \<lparr>name = ''3V3''\<rparr>, \<lparr>name = ''GND''\<rparr>])"
    by simp
  with s e show ?thesis by simp
qed

subsection \<open>Outcomes of loading\<close>

lemma load_decoded_unrecognised:
  "\<not> has_key raw ''components'' \<Longrightarrow> \<not> has_key raw ''parts'' \<Longrightarrow> \<not> has_key raw ''nets'' \<Longrightarrow>
   load_decoded lib raw = Inr default_circuit"
  by (cases raw) (simp_all add: load_decoded_def has_key_def)

lemma load_decoded_recognised:
  assumes "load_decoded lib raw = Inr c" and "c \<noteq> default_circuit"
  shows "has_key raw ''components'' \<or> has_key raw ''parts'' \<or> has_key raw ''nets''"
proof (rule ccontr)
  assume "\<not> ?thesis"
  then have "load_decoded lib raw = Inr default_circuit"
    using load_decoded_unrecognised [of raw lib] by simp
  with assms show False by simp
qed


text \<open>
  C8 (as amended). Content that is not JSON makes \<^verbatim>\<open>load_circuit_spec\<close> fail with the
  decoder's error. Content that decodes to a value of an unrecognised shape (not a
  dictionary with a \<^verbatim>\<open>components\<close>, \<^verbatim>\<open>parts\<close> or \<^verbatim>\<open>nets\<close> key) yields the empty default
  circuit. A circuit other than the default comes only from the pseudo-CAD shape or the
  native shape.
\<close>

theorem load_circuit_spec_outcomes:
  "(json_loads lib text = None \<longrightarrow> load_circuit_spec lib (Some text) = Inl JSONDecodeError)
   \<and> (\<forall>raw. json_loads lib text = Some raw \<and> \<not> has_key raw ''components''
            \<and> \<not> has_key raw ''parts'' \<and> \<not> has_key raw ''nets''
         \<longrightarrow> load_circuit_spec lib (Some text) = Inr default_circuit)
   \<and> (\<forall>c. load_circuit_spec lib (Some text) = Inr c \<and> c \<noteq> default_circuit
         \<longrightarrow> (\<exists>raw. json_loads lib text = Some raw
                \<and> (has_key raw ''components'' \<or> has_key raw ''parts'' \<or> has_key raw ''nets'')))"
proof (intro conjI allI impI)
  assume "json_loads lib text = None"
  then show "load_circuit_spec lib (Some text) = Inl JSONDecodeError"
    by (simp add: load_circuit_spec_def)
next
  fix raw
  assume "json_loads lib text = Some raw \<and> \<not> has_key raw ''components''
            \<and> \<not> has_key raw ''parts'' \<and> \<not> has_key raw ''nets''"
  then show "load_circuit_spec lib (Some text) = Inr default_circuit"
    by (simp add: load_circuit_spec_def load_decoded_unrecognised)
next
  fix c
  assume a: "load_circuit_spec lib (Some text) = Inr c \<and> c \<noteq> default_circuit"
  then obtain raw where r: "json_loads lib text = Some raw" and l: "load_decoded lib raw = Inr c"
    by (cases "json_loads lib text") (simp_all add: load_circuit_spec_def)
  from load_decoded_recognised [OF l] a
  have "has_key raw ''components'' \<or> has_key raw ''parts'' \<or> has_key raw ''nets''" by simp
  with r show "\<exists>raw. json_loads lib text = Some raw
                \<and> (has_key raw ''components'' \<or> has_key raw ''parts'' \<or> has_key raw ''nets'')"
    by (intro exI [of _ raw] conjI)
qed


text \<open>The claim as stated fails: a truncated text is not turned into the default circuit,
  nor is a pseudo-CAD input whose \<^verbatim>\<open>nets\<close> are strings.\<close>

theorem load_circuit_spec_malformed_counterexample:
  \<open>load_circuit_spec demo_lib (Some ''{"parts": '') = Inl JSONDecodeError
   \<and> load_circuit_spec demo_lib (Some ''{"components": [], "nets": ["GND"]}'') = Inl AttributeError\<close>
  by (simp add: load_circuit_spec_def demo_lib_def load_decoded_def convert_pseudo_cad_schema_def
      device_title_def dict_get_def get_or_empty_list_def py_iter_def Let_def)

theorem load_circuit_spec_outcomes_witness:
  \<open>json_loads demo_lib ''{"parts": '' = None
   \<and> load_circuit_spec demo_lib (Some ''{"parts": '') = Inl JSONDecodeError
   \<and> json_loads demo_lib ''[1, 2]'' = Some (JList [JInt 1, JInt 2])
   \<and> \<not> has_key (JList [JInt 1, JInt 2]) ''components''
   \<and> load_circuit_spec demo_lib (Some ''[1, 2]'') = Inr default_circuit
   \<and> load_circuit_spec demo_lib (Some ''{"components": []}'')
       = Inr \<lparr>title = Some ''Untitled'', parts = [], nets = [\<lparr>name = ''GND''\<rparr>]\<rparr>
   \<and> \<lparr>title = Some ''Untitled'', parts = [], nets = [\<lparr>name = ''GND''\<rparr>]\<rparr> \<noteq> default_circuit
   \<and> has_key (JDict [(''components'', JList [])]) ''components''\<close>
proof -
  have 1: \<open>json_loads demo_lib ''{"parts": '' = None\<close>
    by (simp add: demo_lib_def)
  have 2: \<open>json_loads demo_lib ''[1, 2]'' = Some (JList [JInt 1, JInt 2])\<close>
    by (simp add: demo_lib_def)
  have 3: "\<not> has_key (JList [JInt 1, JInt 2]) k" for k
    by (simp add: has_key_def)
  have 4: \<open>load_circuit_spec demo_lib (Some ''{"components": []}'')
       = Inr \<lparr>title = Some ''Untitled'', parts = [], nets = [\<lparr>name = ''GND''\<rparr>]\<rparr>\<close>
    by (simp add: load_circuit_spec_def demo_lib_def load_decoded_def convert_pseudo_cad_schema_def
      device_title_def dict_get_def get_or_empty_list_def py_iter_def Let_def validate_opt_str_def
      append_gnd_def)
  have 5: "\<lparr>title = Some ''Untitled'', parts = [], nets = [\<lparr>name = ''GND''\<rparr>]\<rparr> \<noteq> default_circuit"
    by (simp add: default_circuit_def)
  have 6: "has_key (JDict [(''components'', JList [])]) ''components''"
    by (simp add: has_key_def)
  from load_circuit_spec_outcomes [of demo_lib \<open>''{"parts": ''\<close>] 1
  have 7: \<open>load_circuit_spec demo_lib (Some ''{"parts": '') = Inl JSONDecodeError\<close> by blast
  from load_circuit_spec_outcomes [of demo_lib "''[1, 2]''"] 2 3
  have 8: "load_circuit_spec demo_lib (Some ''[1, 2]'') = Inr default_circuit" by blast
  from 1 2 3 4 5 6 7 8 show ?thesis by (intro conjI)
qed

section \<open>The consistency checker (\<^verbatim>\<open>agents/validator_agent.py\<close>)\<close>

text \<open>
  Every probe reads the schematic file itself; the model hands it the outcome of that
  read: the text, or \<^term>\<open>None\<close> when \<^verbatim>\<open>read_text\<close> raises. Coordinates are Python floats in
  the source and real numbers here: the comparison of distances is modelled exactly,
  without rounding.
\<close>

definition check_missing_embedded_symbols :: "string option \<Rightarrow> string list" where
  \<open>check_missing_embedded_symbols file =
     (case file of
        None \<Rightarrow> []
      | Some text \<Rightarrow>
          (let has_lib_symbols = py_contains text ''(lib_symbols'';
               used_lib_ids = re_findall rx_lib_id text
           in if used_lib_ids \<noteq> [] \<and> \<not> has_lib_symbols then
                [''No (lib_symbols ...) block present. Embed symbol definitions for: ''
                 @ py_join '', '' (slice_to 20 (sort (remdups used_lib_ids)))]
              else []))\<close>

definition check_symbol_pins_and_graphics :: "string option \<Rightarrow> string list" where
  \<open>check_symbol_pins_and_graphics file =
     (case file of
        None \<Rightarrow> []
      | Some text \<Rightarrow>
          if \<not> py_contains text ''(lib_symbols'' then []
          else
            (let pin_count = length (re_finditer rx_pin text);
                 shape_count = length (re_finditer rx_shape text)
             in (if pin_count = 0 then
                   [''Embedded symbols lack (pin ...) definitions. Add pins with name/number, (at x y), and length.'']
                 else [])
                @ (if shape_count = 0 then
                   [''Embedded symbols lack basic graphics (rectangle/polyline). Add a body rectangle around the symbol.'']
                 else [])))\<close>

definition check_invalid_lib_ids_and_sheet :: "string option \<Rightarrow> string list" where
  \<open>check_invalid_lib_ids_and_sheet file =
     (case file of
        None \<Rightarrow> []
      | Some text \<Rightarrow>
          (let invalids = filter (\<lambda>m. py_lower (py_strip m) \<in> {''device:u'', ''device:unknown''})
                                 (re_findall rx_lib_id text)
           in (if invalids \<noteq> [] then
                 [''Invalid lib_id(s) found: '' @ py_join '', '' (sort (remdups invalids))
                  @ ''. Replace with valid symbols or embed their definitions.'']
               else [])
              @ (if \<not> py_contains text ''(sheet_instances'' then
                 [''Missing (sheet_instances ...) block. Add minimal KiCad 9 sheet bookkeeping to improve compatibility.'']
               else [])
              @ (if py_contains text ''(kicad_sch'' \<and> \<not> py_contains text ''(version 20250114)'' then
                 [''Header version is not KiCad 9 (20250114). Use (version 20250114) (generator eeschema).'']
               else [])))\<close>

text \<open>
  \<^verbatim>\<open>float(s)\<close> for a text matched by \<^verbatim>\<open>-?[\d\.]+\<close>: digits with at most one point and at
  least one digit; anything else raises \<^verbatim>\<open>ValueError\<close> (\<^term>\<open>None\<close>).
\<close>

definition digit_value :: "char \<Rightarrow> nat" where
  "digit_value c = of_char c - 48"

definition nat_of_digits :: "string \<Rightarrow> nat" where
  "nat_of_digits ds = foldl (\<lambda>a c. 10 * a + digit_value c) 0 ds"

definition py_float :: "string \<Rightarrow> real option" where
  "py_float s =
     (let neg = (s \<noteq> [] \<and> hd s = CHR ''-'');
          body = (if neg then tl s else s);
          ip = takeWhile py_isdigit body;
          after = dropWhile py_isdigit body;
          fp = (if after \<noteq> [] \<and> hd after = CHR ''.'' then tl after else [])
      in if (after = [] \<or> (hd after = CHR ''.'' \<and> list_all py_isdigit fp)) \<and> (ip \<noteq> [] \<or> fp \<noteq> [])
         then Some ((if neg then - 1 else 1)
                    * (real (nat_of_digits ip) + real (nat_of_digits fp) / 10 ^ length fp))
         else None)"

text \<open>A placed instance: reference, x, y, rotation, library identifier, whether a
  \<^verbatim>\<open>(uuid ...)\<close> was found.\<close>

type_synonym placed = "string \<times> real \<times> real \<times> real \<times> string \<times> bool"

text \<open>The position of an instance from the first \<^verbatim>\<open>(at ...)\<close> of its window; all three
  numbers are 0 when one of them does not convert. (Group 1 of each pattern takes part in
  every match, so the branches for a missing group are never taken.)\<close>

definition float_of_group :: "string option \<Rightarrow> real option" where
  "float_of_group g = (case g of None \<Rightarrow> None | Some s \<Rightarrow> py_float s)"

definition at_position :: "re_match \<Rightarrow> real \<times> real \<times> real" where
  "at_position at_m =
     (case (float_of_group (group at_m 1), float_of_group (group at_m 2),
            (case group at_m 3 of
               None \<Rightarrow> Some 0
             | Some g3 \<Rightarrow> if g3 = [] then Some 0 else py_float g3)) of
        (Some x, Some y, Some rot) \<Rightarrow> (x, y, rot)
      | _ \<Rightarrow> (0, 0, 0))"

definition instance_at :: "string \<Rightarrow> re_match \<Rightarrow> placed list" where
  "instance_at text m =
     (let start = m_start m - 2000;
          end = min (length text) (m_end m + 2000);
          window = take (end - start) (drop start text)
      in case (re_search rx_at window, re_search rx_lib_id window) of
           (Some at_m, Some lib_m) \<Rightarrow>
             (case (at_position at_m, group m 1, group lib_m 1) of
                ((x, y, rot), Some r, Some lib_id) \<Rightarrow>
                  [(r, x, y, rot, lib_id, re_search rx_uuid window \<noteq> None)]
              | _ \<Rightarrow> [])
         | _ \<Rightarrow> [])"

definition extract_instances :: "string option \<Rightarrow> placed list" where
  "extract_instances file =
     (case file of
        None \<Rightarrow> []
      | Some text \<Rightarrow> concat (map (instance_at text) (re_finditer rx_reference text)))"

definition desired_prefix_for_lib :: "string \<Rightarrow> string" where
  "desired_prefix_for_lib lib_id =
     (let l = py_lower lib_id
      in if py_contains l ''device:r'' \<or> py_contains l ''resistor'' then ''R''
         else if py_contains l ''device:c'' \<or> py_contains l ''capacitor'' then ''C''
         else if py_contains l ''device:l'' \<or> py_contains l ''inductor'' then ''L''
         else if py_contains l ''connector'' \<or> py_startswith l ''conn'' then ''J''
         else if py_contains l ''switch'' \<or> py_startswith l ''sw'' \<or> py_contains l ''button'' then ''S''
         else if py_contains l ''device:d'' \<or> py_contains l ''diode'' \<or> py_contains l ''led'' then ''D''
         else if py_contains l ''device:q'' \<or> py_contains l ''transistor'' \<or> py_contains l ''bjt''
                 \<or> py_contains l ''mosfet'' then ''Q''
         else if py_contains l ''crystal'' \<or> py_contains l ''xtal'' \<or> py_contains l ''osc''
                 \<or> py_contains l ''resonator'' then ''Y''
         else ''U'')"

definition min_spacing :: real where
  "min_spacing = 20"

text \<open>The test of the inner loop: \<^verbatim>\<open>(dx * dx + dy * dy) < (min_spacing * min_spacing)\<close>.\<close>

definition too_close :: "placed \<Rightarrow> placed \<Rightarrow> bool" where
  "too_close a b =
     (case (a, b) of
        ((ref_i, xi, yi, _), (ref_j, xj, yj, _)) \<Rightarrow>
          (let dx = xi - xj; dy = yi - yj
           in dx * dx + dy * dy < min_spacing * min_spacing))"

definition too_close_issue :: "placed \<Rightarrow> placed \<Rightarrow> string" where
  "too_close_issue a b =
     ''Placed instances too close: '' @ fst a @ '' and '' @ fst b @ '' (increase spacing >= 20.0).''"

text \<open>The nested loops over \<open>i\<close> and \<open>j > i\<close>.\<close>

fun pair_issues :: "placed list \<Rightarrow> string list" where
  "pair_issues [] = []"
| "pair_issues (a # others) =
     concat (map (\<lambda>b. if too_close a b then [too_close_issue a b] else []) others)
     @ pair_issues others"

definition reference_issues :: "placed \<Rightarrow> string list" where
  \<open>reference_issues inst =
     (case inst of
        (r, _, _, _, lib_id, has_uuid) \<Rightarrow>
          (let want_prefix = desired_prefix_for_lib lib_id
           in (if \<not> py_startswith (py_upper r) want_prefix then
                 [''Reference prefix mismatch for '' @ r @ '': expected to start with '' @ [CHR 0x27]
                  @ want_prefix @ [CHR 0x27] @ '' based on lib_id '' @ lib_id @ ''.'']
               else [])
              @ (if \<not> has_uuid then
                 [''Placed instance '' @ r @ '' is missing (uuid ...). Add a UUID to each (symbol ...) instance.'']
               else [])))\<close>

definition check_instance_positions_and_refs :: "string option \<Rightarrow> string list" where
  "check_instance_positions_and_refs file =
     (let inst = extract_instances file
      in pair_issues inst @ concat (map reference_issues inst))"

definition validator_system_prompt :: string where
  \<open>validator_system_prompt =
     ''You are a KiCad 9 schematic format validator. Check the text for KiCad 9 S-expression compliance and layout sanity.\<newline>''
     @ ''Verify: top-level (kicad_sch ...), (paper ...), (title_block ...), symbol blocks with (lib_id ...), (at ...), (uuid ...), (property ...).\<newline>''
     @ ''Also verify engineering layout basics: placed symbol instances not overlapping based on their (at x y) position and typical symbol sizes; reasonable spacing; consistent orientation.\<newline>''
     @ ''Return ONLY JSON: {issues: string[]} with specific, actionable messages.''\<close>

text \<open>
  \<^verbatim>\<open>_check_kicad_text_llm\<close>, called only when the LLM is enabled. The call of the oracle is
  not guarded: when the client raises, the probe raises.
\<close>

definition check_kicad_text_llm ::
  "pylib \<Rightarrow> (message list \<Rightarrow> string option) \<Rightarrow> string \<Rightarrow> string option \<Rightarrow> py_error + string list" where
  \<open>check_kicad_text_llm lib chat sch_path file =
     (case file of
        None \<Rightarrow> Inr [''Cannot read schematic file: '' @ sch_path]
      | Some text \<Rightarrow>
          (case chat [\<lparr>role = ''system'', content = validator_system_prompt\<rparr>,
                      \<lparr>role = ''user'', content = slice_to 10000 text\<rparr>] of
             None \<Rightarrow> Inl LLMError
           | Some reply \<Rightarrow>
               if reply = [] then Inr []
               else
                 (case (py_find reply ''{'', py_rfind reply ''}'') of
                    (Some s, Some e) \<Rightarrow>
                      if e > s then
                        (case json_loads lib (take (e + 1 - s) (drop s reply)) of
                           None \<Rightarrow> Inr [''LLM returned non-JSON response for KiCad validation.'']
                         | Some (JDict d) \<Rightarrow>
                             (case dict_get d ''issues'' of
                                Some (JList xs) \<Rightarrow> Inr (map (str_of lib) xs)
                              | _ \<Rightarrow> Inr [])
                         | Some _ \<Rightarrow> Inr [])
                      else Inr []
                  | _ \<Rightarrow> Inr [])))\<close>

definition heuristic_issues :: "string option \<Rightarrow> string list" where
  "heuristic_issues file =
     check_missing_embedded_symbols file
     @ check_symbol_pins_and_graphics file
     @ check_invalid_lib_ids_and_sheet file
     @ check_instance_positions_and_refs file"

text \<open>\<^verbatim>\<open>ValidatorAgent.validate\<close> for a validator built with the flag \<open>use_llm\<close>.\<close>

definition validate ::
  "bool \<Rightarrow> pylib \<Rightarrow> (message list \<Rightarrow> string option) \<Rightarrow> string \<Rightarrow> string option \<Rightarrow> py_error + string list" where
  "validate use_llm lib chat sch_path file =
     (let issues = check_missing_embedded_symbols file
                   @ check_symbol_pins_and_graphics file
                   @ check_invalid_lib_ids_and_sheet file
                   @ check_instance_positions_and_refs file
      in if use_llm then
           (case check_kicad_text_llm lib chat sch_path file of
              Inl e \<Rightarrow> Inl e
            | Inr more_issues \<Rightarrow> Inr (issues @ more_issues))
         else Inr issues)"

subsection \<open>Placement sanity\<close>






text \<open>A document shorter than the window of the extractor, with two instances placed far
  apart.\<close>

definition two_far_symbols :: string where
  \<open>two_far_symbols =
     ''(symbol (lib_id "Device:R") (at 0 0) (uuid 12345678) (property "Reference" "R1")) ''
     @ ''(symbol (lib_id "Device:R") (at 100 100) (uuid 12345679) (property "Reference" "R2"))''\<close>













text \<open>
  The positions compared are those the extractor assigns. It takes the first \<^verbatim>\<open>(at ...)\<close> in
  the window of 2000 characters around each reference, so in a short document every
  instance gets the position of the first one, whatever the document says.
\<close>

lemma extract_instances_short_document:
  "extract_instances (Some two_far_symbols)
     = [(''R1'', 0, 0, 0, ''Device:R'', True), (''R2'', 0, 0, 0, ''Device:R'', True)]
   \<and> check_instance_positions_and_refs (Some two_far_symbols)
     = [''Placed instances too close: R1 and R2 (increase spacing >= 20.0).'']"
  by code_simp

subsection \<open>Unreadable files and determinism\<close>

text \<open>
  C4 (as amended). When the file cannot be read, each of the four heuristic probes, the
  completeness probe included, returns no issues, and so does the checker with the LLM
  disabled; the explicit file-unreadable issue comes from the LLM-backed probe only, that
  is, when the LLM is enabled. With the LLM disabled the checker never raises: on every
  input it returns the issues of the four probes.
\<close>

theorem unreadable_file_probes:
  "check_missing_embedded_symbols None = []
   \<and> check_symbol_pins_and_graphics None = []
   \<and> check_invalid_lib_ids_and_sheet None = []
   \<and> check_instance_positions_and_refs None = []
   \<and> validate False lib chat sch_path None = Inr []
   \<and> check_kicad_text_llm lib chat sch_path None = Inr [''Cannot read schematic file: '' @ sch_path]
   \<and> validate True lib chat sch_path None = Inr [''Cannot read schematic file: '' @ sch_path]
   \<and> validate False lib chat sch_path file = Inr (heuristic_issues file)"
  by (simp add: check_missing_embedded_symbols_def check_symbol_pins_and_graphics_def
      check_invalid_lib_ids_and_sheet_def check_instance_positions_and_refs_def
      extract_instances_def validate_def check_kicad_text_llm_def heuristic_issues_def)

text \<open>The claim as stated fails: on an unreadable file the completeness probe reports
  nothing, and the heuristic checker returns the empty list.\<close>

theorem unreadable_file_counterexample:
  "check_missing_embedded_symbols None = []
   \<and> validate False demo_lib (\<lambda>messages. None) ''out/design.kicad_sch'' None = Inr []"
  by (simp add: check_missing_embedded_symbols_def check_symbol_pins_and_graphics_def
      check_invalid_lib_ids_and_sheet_def check_instance_positions_and_refs_def
      extract_instances_def validate_def)

text \<open>
  C9. With the LLM disabled, \<^verbatim>\<open>validate\<close> depends on nothing but the content of the file: not
  on the oracle, the library or the path. Its result is the concatenation of the four
  probes in their fixed order, so two runs on the same content give the same list.
\<close>

theorem validate_function_of_text:
  "validate False lib1 chat1 path1 file = validate False lib2 chat2 path2 file
   \<and> validate False lib1 chat1 path1 file =
       Inr (check_missing_embedded_symbols file @ check_symbol_pins_and_graphics file
            @ check_invalid_lib_ids_and_sheet file @ check_instance_positions_and_refs file)"
  by (simp add: validate_def)

section \<open>The external rule checker (\<^verbatim>\<open>kicad/erc.py\<close>)\<close>

text \<open>
  The checker is a command-line tool. \<^verbatim>\<open>run_erc\<close> gives its completed process, or
  \<^verbatim>\<open>None\<close> when the tool is absent or cannot be started; \<^verbatim>\<open>run_erc_with_json\<close> gives the
  process together with the decoded report (\<^verbatim>\<open>None\<close> when there is no readable report), or
  no process at all. Both are oracles of the model.
\<close>

record completed_process =
  returncode :: int
  stdout :: "string option"
  stderr :: "string option"

text \<open>\<^verbatim>\<open>parse_erc_violations\<close>: every path on which no count is found returns 0.\<close>

definition parse_erc_violations :: "string \<Rightarrow> nat" where
  "parse_erc_violations output_text =
     (if output_text = [] then 0
      else (case re_search rx_found_violations output_text of
              Some m \<Rightarrow> (case group m 1 of Some ds \<Rightarrow> nat_of_digits ds | None \<Rightarrow> 0)
            | None \<Rightarrow> 0))"

text \<open>\<^verbatim>\<open>len(v)\<close> and \<^verbatim>\<open>v[:n]\<close> followed by iteration, on a decoded value.\<close>

definition py_len :: "json \<Rightarrow> py_error + nat" where
  "py_len v =
     (case v of
        JList xs \<Rightarrow> Inr (length xs)
      | JDict d \<Rightarrow> Inr (length d)
      | JStr s \<Rightarrow> Inr (length s)
      | _ \<Rightarrow> Inl TypeError)"

definition py_slice_items :: "int \<Rightarrow> json \<Rightarrow> py_error + json list" where
  "py_slice_items n v =
     (case v of
        JList xs \<Rightarrow> Inr (slice_to n xs)
      | JStr s \<Rightarrow> Inr (map (\<lambda>c. JStr [c]) (slice_to n s))
      | _ \<Rightarrow> Inl TypeError)"

text \<open>\<^verbatim>\<open>x or default\<close> on an optional decoded value.\<close>

definition or_else :: "json option \<Rightarrow> json \<Rightarrow> json" where
  "or_else v dflt = (case v of None \<Rightarrow> dflt | Some x \<Rightarrow> if py_truthy x then x else dflt)"

text \<open>\<^verbatim>\<open>ref.get("ref") or ref.get("uuid") or ""\<close>\<close>

definition designator_of :: "json \<Rightarrow> py_error + json" where
  "designator_of r =
     (case r of
        JDict d \<Rightarrow> Inr (or_else (dict_get d ''ref'') (or_else (dict_get d ''uuid'') (JStr [])))
      | _ \<Rightarrow> Inl AttributeError)"

fun designators :: "json list \<Rightarrow> py_error + json list" where
  "designators [] = Inr []"
| "designators (r # rs) =
     (case designator_of r of
        Inl e \<Rightarrow> Inl e
      | Inr d \<Rightarrow> (case designators rs of Inl e \<Rightarrow> Inl e | Inr ds \<Rightarrow> Inr (d # ds)))"

text \<open>\<^verbatim>\<open>",".join([r for r in refs if r])\<close>: every item that is kept has to be a string.\<close>

fun join_designators :: "json list \<Rightarrow> py_error + string list" where
  "join_designators [] = Inr []"
| "join_designators (d # ds) =
     (if \<not> py_truthy d then join_designators ds
      else (case d of
              JStr s \<Rightarrow> (case join_designators ds of Inl e \<Rightarrow> Inl e | Inr ss \<Rightarrow> Inr (s # ss))
            | _ \<Rightarrow> Inl TypeError))"

definition violation_line :: "pylib \<Rightarrow> json \<Rightarrow> py_error + string" where
  "violation_line lib v =
     (case v of
        JDict d \<Rightarrow>
          (let sev = (case dict_get d ''severity'' of None \<Rightarrow> JStr ''?'' | Some x \<Rightarrow> x);
               msg = (case dict_get d ''message'' of None \<Rightarrow> JStr [] | Some x \<Rightarrow> x);
               refs_v = or_else (Some (case dict_get d ''references'' of None \<Rightarrow> JList [] | Some x \<Rightarrow> x))
                                (JList [])
           in case py_iter refs_v of
                Inl e \<Rightarrow> Inl e
              | Inr rs \<Rightarrow>
                  (case designators rs of
                     Inl e \<Rightarrow> Inl e
                   | Inr ds \<Rightarrow>
                       (case join_designators ds of
                          Inl e \<Rightarrow> Inl e
                        | Inr names \<Rightarrow>
                            Inr (''- '' @ str_of lib sev @ '': '' @ str_of lib msg
                                 @ '' ['' @ py_join '','' names @ '']''))))
      | _ \<Rightarrow> Inl AttributeError)"

fun violation_lines :: "pylib \<Rightarrow> json list \<Rightarrow> py_error + string list" where
  "violation_lines lib [] = Inr []"
| "violation_lines lib (v # vs) =
     (case violation_line lib v of
        Inl e \<Rightarrow> Inl e
      | Inr l \<Rightarrow> (case violation_lines lib vs of Inl e \<Rightarrow> Inl e | Inr ls \<Rightarrow> Inr (l # ls)))"

text \<open>\<^verbatim>\<open>summarize_erc_json\<close>. Nothing in it is guarded: a report of an unexpected shape makes
  it raise.\<close>

definition summarize_erc_json :: "pylib \<Rightarrow> json option \<Rightarrow> int \<Rightarrow> py_error + string list" where
  "summarize_erc_json lib data max_items =
     (case data of
        None \<Rightarrow> Inr []
      | Some v \<Rightarrow>
          if \<not> py_truthy v then Inr []
          else (case v of
                  JDict d \<Rightarrow>
                    (let violations = or_else (dict_get d ''violations'') (JList [])
                     in case py_len violations of
                          Inl e \<Rightarrow> Inl e
                        | Inr n \<Rightarrow>
                            (case py_slice_items max_items violations of
                               Inl e \<Rightarrow> Inl e
                             | Inr vs \<Rightarrow>
                                 (case violation_lines lib vs of
                                    Inl e \<Rightarrow> Inl e
                                  | Inr ls \<Rightarrow> Inr ((''ERC JSON violations: '' @ str_of_nat n) # ls))))
                | _ \<Rightarrow> Inl AttributeError))"

section \<open>The convergence loop (\<^verbatim>\<open>agents/orchestrator.py\<close>)\<close>

text \<open>
  The oracles of a run, indexed by the iteration: the generator's and the validator's
  language model (\<^term>\<open>None\<close>: the client raises), and the two invocations of the rule
  checker on the text of the output file.
\<close>

record oracles =
  gen_chat :: "nat \<Rightarrow> message list \<Rightarrow> string option"
  val_chat :: "nat \<Rightarrow> message list \<Rightarrow> string option"
  erc_with_json :: "nat \<Rightarrow> string option \<Rightarrow> (completed_process \<times> json option) option"
  erc_plain :: "nat \<Rightarrow> string option \<Rightarrow> completed_process option"

text \<open>What stays fixed during the loop.\<close>

record run_context =
  raw_text :: string
  allowed :: allowed_table
  reference_text :: "string option"
  out_path :: string
  use_llm :: bool

text \<open>What the loop carries from one iteration to the next: the writer with its history,
  the content of the output file, \<^verbatim>\<open>prev_text\<close> and \<^verbatim>\<open>issues\<close>; and, for the statement of
  properties only, the documents written so far.\<close>

record loop_state =
  the_writer :: writer
  out_file :: "string option"
  prev_text :: "string option"
  issues :: "string list"
  written :: "string list"

text \<open>The references expected but not placed in the text read back.\<close>

definition missing_refs_of :: "string option \<Rightarrow> string list \<Rightarrow> string list" where
  "missing_refs_of text_read expected_refs =
     (if nonempty_opt text_read
      then filter (\<lambda>r. r \<notin> set (re_findall rx_reference (the text_read))) expected_refs
      else [])"

text \<open>The rule-checking phase: exit status, violation count and summary lines.\<close>

record erc_outcome =
  erc_rc :: "int option"
  erc_violations :: "nat option"
  erc_summary_lines :: "string list"

text \<open>\<^verbatim>\<open>len(erc_json.get("violations") or [])\<close> under \<^verbatim>\<open>try\<close>: \<^term>\<open>None\<close> when it raises.\<close>

definition count_json_violations :: "json \<Rightarrow> nat option" where
  "count_json_violations erc_json =
     (case erc_json of
        JDict d \<Rightarrow> (case py_len (or_else (dict_get d ''violations'') (JList [])) of
                      Inl e \<Rightarrow> None | Inr n \<Rightarrow> Some n)
      | _ \<Rightarrow> None)"

definition erc_phase :: "pylib \<Rightarrow> oracles \<Rightarrow> nat \<Rightarrow> string option \<Rightarrow> py_error + erc_outcome" where
  "erc_phase lib orc i file =
     (case erc_with_json orc i file of
        Some (erc_proc, erc_json) \<Rightarrow>
          (case summarize_erc_json lib erc_json 15 of
             Inl e \<Rightarrow> Inl e
           | Inr ls \<Rightarrow>
               Inr \<lparr>erc_rc = Some (returncode erc_proc),
                    erc_violations =
                      (case erc_json of
                         None \<Rightarrow> None
                       | Some JNull \<Rightarrow> None
                       | Some j \<Rightarrow> count_json_violations j),
                    erc_summary_lines = ls\<rparr>)
      | None \<Rightarrow>
          (case erc_plain orc i file of
             Some erc \<Rightarrow>
               Inr \<lparr>erc_rc = Some (returncode erc),
                    erc_violations =
                      Some (parse_erc_violations
                              ((case stdout erc of None \<Rightarrow> [] | Some t \<Rightarrow> t) @ ''\<newline>''
                               @ (case stderr erc of None \<Rightarrow> [] | Some t \<Rightarrow> t))),
                    erc_summary_lines = []\<rparr>
           | None \<Rightarrow> Inr \<lparr>erc_rc = None, erc_violations = None, erc_summary_lines = []\<rparr>))"

text \<open>The acceptance test of line 142.\<close>

definition accepts :: "string list \<Rightarrow> erc_outcome \<Rightarrow> bool" where
  "accepts iss erc = (iss = [] \<and> erc_rc erc = Some 0 \<and> erc_violations erc = Some 0)"

definition feedback_json :: "string list \<Rightarrow> erc_outcome \<Rightarrow> json" where
  "feedback_json iss erc =
     JDict ([(''validator_feedback'', JList (map JStr iss))]
            @ (case erc_rc erc of None \<Rightarrow> [] | Some rc \<Rightarrow> [(''erc_returncode'', JInt rc)])
            @ (case erc_violations erc of None \<Rightarrow> [] | Some n \<Rightarrow> [(''erc_violations'', JInt (int n))])
            @ (if erc_summary_lines erc \<noteq> []
               then [(''erc_summary'', JList (map JStr (erc_summary_lines erc)))] else []))"

text \<open>
  One pass through the body of the loop for iteration \<open>i\<close>: whether it accepted (the
  \<^verbatim>\<open>break\<close>) and the state after it, or the exception that leaves the loop. The write to the
  output path is taken to succeed, so the text read back is the document written. The
  progress callback only reports and is left out.
\<close>

definition iteration ::
  "pylib \<Rightarrow> oracles \<Rightarrow> run_context \<Rightarrow> nat \<Rightarrow> loop_state \<Rightarrow> py_error + bool \<times> loop_state" where
  "iteration lib orc ctx i st =
     (let (w1, doc) = writer_write lib (gen_chat orc i) (the_writer st) (raw_text ctx) (allowed ctx)
                        (prev_text st) (Some (issues st)) (reference_text ctx);
          file1 = Some doc;
          prev1 = file1
      in case validate (use_llm ctx) lib (val_chat orc i) (out_path ctx) file1 of
           Inl e \<Rightarrow> Inl e
         | Inr issues1 \<Rightarrow>
             (let missing_refs = missing_refs_of prev1 (map fst (allowed ctx));
                  issues2 = (if missing_refs \<noteq> []
                             then issues1 @ [''Missing placed instances for refs: ''
                                             @ py_join '', '' missing_refs]
                             else issues1)
              in case erc_phase lib orc i file1 of
                   Inl e \<Rightarrow> Inl e
                 | Inr erc \<Rightarrow>
                     if accepts issues2 erc then
                       Inr (True, \<lparr>the_writer = w1, out_file = file1, prev_text = prev1,
                                  issues = issues2, written = written st @ [doc]\<rparr>)
                     else
                       Inr (False,
                            \<lparr>the_writer = w1\<lparr>history :=
                                 add_history (history w1) ''user''
                                   (json_dumps lib (feedback_json issues2 erc))\<rparr>,
                             out_file = file1, prev_text = prev1,
                             issues = issues2, written = written st @ [doc]\<rparr>)))"

text \<open>The result of the loop: the final state, the number of iterations performed and
  whether the last one accepted.\<close>

record loop_result =
  final :: loop_state
  performed :: nat
  accepted :: bool

text \<open>\<^verbatim>\<open>for iteration in range(1, max_iters + 1)\<close> with its \<^verbatim>\<open>break\<close>: \<open>k\<close> iterations are left,
  the next one has the number \<open>i\<close>, and \<open>n\<close> have been performed.\<close>

fun run_loop ::
  "pylib \<Rightarrow> oracles \<Rightarrow> run_context \<Rightarrow> nat \<Rightarrow> nat \<Rightarrow> nat \<Rightarrow> loop_state \<Rightarrow> py_error + loop_result" where
  "run_loop lib orc ctx 0 i n st = Inr \<lparr>final = st, performed = n, accepted = False\<rparr>"
| "run_loop lib orc ctx (Suc k) i n st =
     (case iteration lib orc ctx i st of
        Inl e \<Rightarrow> Inl e
      | Inr (True, st') \<Rightarrow> Inr \<lparr>final = st', performed = Suc n, accepted = True\<rparr>
      | Inr (False, st') \<Rightarrow> run_loop lib orc ctx k (Suc i) (Suc n) st')"

text \<open>The files \<^verbatim>\<open>run_orchestration\<close> reads before the loop: the input, and the three places
  where a reference schematic is looked for (\<^term>\<open>None\<close>: missing or unreadable).\<close>

record run_files =
  json_file :: "string option"
  template_root :: "string option"
  reference_path :: "string option"
  demo_root :: "string option"

definition choose_reference :: "run_files \<Rightarrow> string option" where
  "choose_reference fs =
     (case template_root fs of
        Some t \<Rightarrow> Some t
      | None \<Rightarrow> (case reference_path fs of Some t \<Rightarrow> Some t | None \<Rightarrow> demo_root fs))"

definition schematic_path :: "string \<Rightarrow> CircuitSpec \<Rightarrow> string" where
  "schematic_path out_dir circuit =
     out_dir @ ''/''
     @ map (\<lambda>c. if c = CHR '' '' then CHR ''_'' else c)
           (if nonempty_opt (title circuit) then the (title circuit) else ''design'')
     @ ''.kicad_sch''"

definition initial_state :: loop_state where
  "initial_state = \<lparr>the_writer = new_writer, out_file = None, prev_text = None, issues = [],
                     written = []\<rparr>"

text \<open>\<^verbatim>\<open>run_orchestration\<close>: the path it returns, with the result of the loop.\<close>

definition run_orchestration ::
  "pylib \<Rightarrow> oracles \<Rightarrow> symbol_index \<Rightarrow> chroma_oracle \<Rightarrow> run_files \<Rightarrow> string \<Rightarrow> int \<Rightarrow> bool
   \<Rightarrow> py_error + string \<times> loop_result" where
  "run_orchestration lib orc idx chroma fs out_dir max_iters validator_use_llm =
     (case load_circuit_spec lib (json_file fs) of
        Inl e \<Rightarrow> Inl e
      | Inr circuit \<Rightarrow>
          (case json_file fs of
             None \<Rightarrow> Inl OSError
           | Some text \<Rightarrow>
               (let ctx = \<lparr>raw_text = text,
                           allowed = candidates_for_parts idx chroma (parts circuit) 10,
                           reference_text = choose_reference fs,
                           out_path = schematic_path out_dir circuit,
                           use_llm = validator_use_llm\<rparr>
                in case run_loop lib orc ctx (nat max_iters) 1 0 initial_state of
                     Inl e \<Rightarrow> Inl e
                   | Inr r \<Rightarrow> Inr (out_path ctx, r))))"

subsection \<open>Examples of runs\<close>

text \<open>Oracles for four runs: one that never converges (the rule checker reports a violation
  every time), one in which the plain-text checker exits with status 0 and prints no
  count, one that is accepted at once, and one whose JSON report is not a dictionary; and
  an input file that is cut off.\<close>

definition mock_oracles :: oracles where
  "mock_oracles = \<lparr>
     gen_chat = (\<lambda>i msgs. Some ''(kicad_sch (version 20250114))''),
     val_chat = (\<lambda>i msgs. None),
     erc_with_json = (\<lambda>i f. Some (\<lparr>returncode = 1, stdout = Some [], stderr = Some []\<rparr>,
        Some (JDict [(''violations'',
           JList [JDict [(''severity'', JStr ''error''), (''message'', JStr ''Pin not connected'')]])]))),
     erc_plain = (\<lambda>i f. None)\<rparr>"

definition mock_files :: run_files where
  \<open>mock_files = \<lparr>json_file = Some ''{"components": []}'', template_root = None,
     reference_path = None, demo_root = None\<rparr>\<close>

definition run_summary ::
  "py_error + string \<times> loop_result \<Rightarrow> py_error + string \<times> nat \<times> bool \<times> string option \<times> string list" where
  "run_summary res =
     (case res of
        Inl e \<Rightarrow> Inl e
      | Inr (p, r) \<Rightarrow> Inr (p, performed r, accepted r, out_file (final r), written (final r)))"

definition unparsed_oracles :: oracles where
  "unparsed_oracles = \<lparr>
     gen_chat = (\<lambda>i msgs. Some ''(kicad_sch (version 20250114) (sheet_instances))''),
     val_chat = (\<lambda>i msgs. None),
     erc_with_json = (\<lambda>i f. None),
     erc_plain = (\<lambda>i f. Some \<lparr>returncode = 0, stdout = Some ''ERC finished'', stderr = Some []\<rparr>)\<rparr>"

definition unparsed_context :: run_context where
  \<open>unparsed_context = \<lparr>raw_text = ''{"components": []}'', allowed = [], reference_text = None,
     out_path = ''out/Untitled.kicad_sch'', use_llm = False\<rparr>\<close>

definition accepting_oracles :: oracles where
  "accepting_oracles = \<lparr>
     gen_chat = (\<lambda>i msgs. Some ''(kicad_sch (version 20250114) (sheet_instances))''),
     val_chat = (\<lambda>i msgs. None),
     erc_with_json = (\<lambda>i f. Some (\<lparr>returncode = 0, stdout = Some [], stderr = Some []\<rparr>,
        Some (JDict [(''violations'', JList [])]))),
     erc_plain = (\<lambda>i f. None)\<rparr>"



subsection \<open>Acceptance\<close>

lemma iteration_written:
  assumes "iteration lib orc ctx i st = Inr (b, st')"
  shows "\<exists>doc. written st' = written st @ [doc] \<and> out_file st' = Some doc"
  using assms
  by (auto simp: iteration_def Let_def split: prod.splits sum.splits if_splits)

lemma iteration_accepts_iff:
  assumes "iteration lib orc ctx i st = Inr (b, st')"
  shows "\<exists>erc. erc_phase lib orc i (out_file st') = Inr erc
           \<and> (b \<longleftrightarrow> issues st' = [] \<and> erc_rc erc = Some 0 \<and> erc_violations erc = Some 0)"
  using assms
  by (auto simp: iteration_def Let_def accepts_def split: prod.splits sum.splits if_splits)

lemma checker_absent_denies:
  assumes "erc_with_json orc i f = None" and "erc_plain orc i f = None"
  shows "erc_phase lib orc i f = Inr erc \<Longrightarrow> \<not> accepts iss erc"
  using assms by (auto simp: erc_phase_def accepts_def)

lemma report_missing_denies:
  assumes "erc_with_json orc i f = Some (p, None)"
  shows "erc_phase lib orc i f = Inr erc \<Longrightarrow> \<not> accepts iss erc"
  using assms by (auto simp: erc_phase_def accepts_def summarize_erc_json_def)

text \<open>
  C1 (as amended). An iteration accepts exactly when the issue list is empty, the exit
  status of the rule checker is 0 and the violation count is 0. Whenever no violation
  count is available the iteration does not accept, and none is available when the
  checker is absent or when its JSON invocation leaves no report.
\<close>

theorem acceptance_conditions:
  assumes "iteration lib orc ctx i st = Inr (b, st')"
  shows "\<exists>erc. erc_phase lib orc i (out_file st') = Inr erc
           \<and> (b \<longleftrightarrow> issues st' = [] \<and> erc_rc erc = Some 0 \<and> erc_violations erc = Some 0)
           \<and> (erc_violations erc = None \<longrightarrow> \<not> b)
           \<and> (erc_with_json orc i (out_file st') = None \<and> erc_plain orc i (out_file st') = None
                \<longrightarrow> erc_violations erc = None)
           \<and> (\<forall>p. erc_with_json orc i (out_file st') = Some (p, None) \<longrightarrow> erc_violations erc = None)"
proof -
  from iteration_accepts_iff [OF assms] obtain erc where
    e: "erc_phase lib orc i (out_file st') = Inr erc" and
    a: "b \<longleftrightarrow> issues st' = [] \<and> erc_rc erc = Some 0 \<and> erc_violations erc = Some 0"
    by blast
  have 1: "erc_violations erc = None \<longrightarrow> \<not> b" using a by simp
  have 2: "erc_with_json orc i (out_file st') = None \<and> erc_plain orc i (out_file st') = None
            \<longrightarrow> erc_violations erc = None"
    using e by (auto simp: erc_phase_def)
  have 3: "\<forall>p. erc_with_json orc i (out_file st') = Some (p, None) \<longrightarrow> erc_violations erc = None"
    using e by (auto simp: erc_phase_def summarize_erc_json_def)
  from e a 1 2 3 show ?thesis by (intro exI [of _ erc] conjI)
qed


theorem acceptance_conditions_witness:
  "map_sum id fst (iteration demo_lib accepting_oracles unparsed_context 1 initial_state) = Inr True
   \<and> map_sum id fst (iteration demo_lib mock_oracles unparsed_context 1 initial_state) = Inr False
   \<and> (\<exists>erc. erc_phase demo_lib accepting_oracles 1
               (Some ''(kicad_sch (version 20250114) (sheet_instances))'') = Inr erc
          \<and> erc_rc erc = Some 0 \<and> erc_violations erc = Some 0)"
proof -
  have t: "map_sum id fst (iteration demo_lib accepting_oracles unparsed_context 1 initial_state) = Inr True"
    by code_simp
  have f: "map_sum id fst (iteration demo_lib mock_oracles unparsed_context 1 initial_state) = Inr False"
    by code_simp
  from t obtain st' where
    it: "iteration demo_lib accepting_oracles unparsed_context 1 initial_state = Inr (True, st')"
    by (cases "iteration demo_lib accepting_oracles unparsed_context 1 initial_state") auto
  from iteration_written [OF it] obtain doc where
    d: "out_file st' = Some doc" by blast
  have "map_sum id (\<lambda>r. out_file (snd r)) (iteration demo_lib accepting_oracles unparsed_context 1 initial_state)
        = Inr (Some ''(kicad_sch (version 20250114) (sheet_instances))'')"
    by code_simp
  with it have o: "out_file st' = Some ''(kicad_sch (version 20250114) (sheet_instances))''" by simp
  from acceptance_conditions [OF it] o
  have "\<exists>erc. erc_phase demo_lib accepting_oracles 1
               (Some ''(kicad_sch (version 20250114) (sheet_instances))'') = Inr erc
          \<and> erc_rc erc = Some 0 \<and> erc_violations erc = Some 0"
    by auto
  with t f show ?thesis by (intro conjI)
qed


text \<open>The claim as stated fails for a count that cannot be parsed: \<^verbatim>\<open>parse_erc_violations\<close>
  returns 0 for a text in which no count is found, and the iteration accepts.\<close>

theorem unparsed_count_is_accepted:
  "re_search rx_found_violations ''ERC finished\<newline>'' = None
   \<and> parse_erc_violations ''ERC finished\<newline>'' = 0
   \<and> map_sum id fst (iteration demo_lib unparsed_oracles unparsed_context 1 initial_state) = Inr True
   \<and> run_summary (run_orchestration demo_lib unparsed_oracles [] (\<lambda>q n. None) mock_files ''out'' 3 False)
       = Inr (''out/Untitled.kicad_sch'', 1, True,
              Some ''(kicad_sch (version 20250114) (sheet_instances))'',
              [''(kicad_sch (version 20250114) (sheet_instances))''])"
  by code_simp

subsection \<open>Termination within the budget\<close>












end
